theory Spec2Isabelle
  imports Complex_Main "HOL-Library.Multiset"
begin

section \<open>Python values used by the risk engine\<close>

text \<open>
  Python integers are modelled as \<open>int\<close>. Python floats (efficacies, costs, averages) are
  modelled as exact rationals: the model computes with the mathematical value of every
  float expression and does not reproduce binary rounding error. Exceptions are values
  of \<open>py_error\<close> on the left of a sum.
\<close>

datatype py_error = ValueError | IndexError | KeyError | ZeroDivisionError

text \<open>
  The level labels of the modules are string literals, written here without their
  accents: "Faible", "Acceptable", "Modere", "Eleve", "Critique", "Indetermine",
  "Moyen", "Fort", "Tres fort"; each literal is one constructor.
\<close>

datatype niveau =
  Faible | Acceptable | Modere | Eleve | Critique | Indetermine | Moyen | Fort | TresFort

text \<open>
  List subscription \<open>xs[i]\<close>. An index from 0 to \<open>len(xs) - 1\<close> reads from the front,
  an index from \<open>-len(xs)\<close> to -1 reads from the back, any other index raises IndexError.
\<close>

definition py_index :: "'a list \<Rightarrow> int \<Rightarrow> py_error + 'a" where
  "py_index xs i =
     (if 0 \<le> i \<and> i < int (length xs) then Inr (xs ! nat i)
      else if - int (length xs) \<le> i \<and> i < 0 then Inr (xs ! nat (int (length xs) + i))
      else Inl IndexError)"

text \<open>Python's \<open>round(x)\<close>: to the nearest integer, a tie going to the even neighbour.\<close>

definition py_round :: "rat \<Rightarrow> int" where
  "py_round x =
     (let f = \<lfloor>x\<rfloor>; d = x - of_int f
      in if d < 1 / 2 then f
         else if 1 / 2 < d then f + 1
         else if even f then f else f + 1)"

text \<open>Python's \<open>round(x, n)\<close> on the exact value of \<open>x\<close>.\<close>

definition py_round_ndigits :: "rat \<Rightarrow> nat \<Rightarrow> rat" where
  "py_round_ndigits x n = of_int (py_round (x * 10 ^ n)) / 10 ^ n"

section \<open>RiskCalculator\<close>

definition RISK_MATRIX :: "int list list" where
  "RISK_MATRIX = [[1, 1, 2, 2], [1, 2, 2, 3], [2, 2, 3, 4], [2, 3, 4, 4]]"

definition levels :: "int \<rightharpoonup> niveau" where
  "levels = [1 \<mapsto> Faible, 2 \<mapsto> Acceptable, 3 \<mapsto> Modere, 4 \<mapsto> Critique]"

definition calculate_risk_level :: "int \<Rightarrow> int \<Rightarrow> py_error + (int \<times> niveau)" where
  "calculate_risk_level gravite vraisemblance =
     (if \<not> (1 \<le> gravite \<and> gravite \<le> 4 \<and> 1 \<le> vraisemblance \<and> vraisemblance \<le> 4)
      then Inl ValueError
      else case py_index RISK_MATRIX (gravite - 1) of
             Inl e \<Rightarrow> Inl e
           | Inr row \<Rightarrow>
               (case py_index row (vraisemblance - 1) of
                  Inl e \<Rightarrow> Inl e
                | Inr score \<Rightarrow>
                    (case levels score of
                       None \<Rightarrow> Inl KeyError
                     | Some n \<Rightarrow> Inr (score, n))))"



text \<open>
  The table and the level names as the specification writes them: rows are gravity,
  columns are likelihood.
\<close>

definition matrix_spec :: "int \<Rightarrow> int \<Rightarrow> int" where
  "matrix_spec g l =
     (if g = 1 then (if l = 1 then 1 else if l = 2 then 1 else if l = 3 then 2 else 2)
      else if g = 2 then (if l = 1 then 1 else if l = 2 then 2 else if l = 3 then 2 else 3)
      else if g = 3 then (if l = 1 then 2 else if l = 2 then 2 else if l = 3 then 3 else 4)
      else (if l = 1 then 2 else if l = 2 then 3 else if l = 3 then 4 else 4))"

definition level_spec :: "int \<Rightarrow> niveau" where
  "level_spec n = (if n = 1 then Faible else if n = 2 then Acceptable
                   else if n = 3 then Modere else Critique)"

section \<open>Shared helpers\<close>

text \<open>Python's \<open>str(n)\<close> for a non-negative integer, used by the f-string identifiers.\<close>

definition digit_char :: "nat \<Rightarrow> char" where
  "digit_char n = ''0123456789'' ! n"

fun string_of_nat :: "nat \<Rightarrow> string" where
  "string_of_nat n =
     (if n < 10 then [digit_char n]
      else string_of_nat (n div 10) @ [digit_char (n mod 10)])"

declare string_of_nat.simps [simp del]

text \<open>
  \<open>next((x for x in xs if P x), None)\<close> is \<open>find P xs\<close>. The object it returns is the
  list element itself, so an assignment to one of its keys updates the first element
  that satisfies \<open>P\<close>.
\<close>

fun update_first :: "('a \<Rightarrow> bool) \<Rightarrow> ('a \<Rightarrow> 'a) \<Rightarrow> 'a list \<Rightarrow> 'a list" where
  "update_first P f [] = []"
| "update_first P f (x # xs) = (if P x then f x # xs else x # update_first P f xs)"

text \<open>
  \<open>xs.sort(key=k, reverse=True)\<close>: the list is reversed, sorted by a stable ascending
  sort, and reversed again.
\<close>

definition py_sort_reverse :: "('a \<Rightarrow> int) \<Rightarrow> 'a list \<Rightarrow> 'a list" where
  "py_sort_reverse k xs = rev (sort_key k (rev xs))"

section \<open>Workshop1\<close>

text \<open>Only the mission list of the study is modelled.\<close>

record mission =
  id_mi :: string
  nom_mi :: string
  description_mi :: string
  criticite_mi :: int

record workshop1 =
  missions :: "mission list"

definition add_mission :: "workshop1 \<Rightarrow> string \<Rightarrow> string \<Rightarrow> int \<Rightarrow> py_error + (bool \<times> workshop1)" where
  "add_mission s nom description criticite =
     (if \<not> (1 \<le> criticite \<and> criticite \<le> 4) then Inl ValueError
      else let m = \<lparr>id_mi = ''M'' @ string_of_nat (length (missions s) + 1), nom_mi = nom,
                       description_mi = description, criticite_mi = criticite\<rparr>
           in Inr (True, s\<lparr>missions := missions s @ [m]\<rparr>))"

section \<open>Workshop2\<close>

record source_risque =
  id_sr :: string
  nom_sr :: string
  type_sr :: string
  ressources_sr :: int
  determination_sr :: int
  competences_sr :: int
  capacite_globale_sr :: rat
  niveau_sr :: niveau

record objectif_vise =
  id_ov :: string
  nom_ov :: string
  description_ov :: string
  impact_potentiel_ov :: int

record relation_sr_ov =
  sr_id_rel :: string
  ov_id_rel :: string
  pertinence_rel :: int
  gravite_scenario_rel :: int

record scenario_strategique =
  id_ss :: string
  source_risque_ss :: string
  source_risque_type_ss :: string
  objectif_vise_ss :: string
  objectif_description_ss :: string
  gravite_ss :: int
  niveau_risque_ss :: niveau
  pertinence_ss :: int
  capacite_sr_ss :: rat
  impact_ov_ss :: int

record workshop2 =
  sources_risque :: "source_risque list"
  objectifs_vises :: "objectif_vise list"
  cartographie_sr_ov :: "relation_sr_ov list"
  scenarios_strategiques :: "scenario_strategique list"

definition get_capacite_level :: "rat \<Rightarrow> niveau" where
  "get_capacite_level capacite =
     (if capacite \<le> 3 / 2 then Faible
      else if capacite \<le> 5 / 2 then Moyen
      else if capacite \<le> 7 / 2 then Fort
      else TresFort)"

definition add_source_risque ::
  "workshop2 \<Rightarrow> string \<Rightarrow> string \<Rightarrow> int \<Rightarrow> int \<Rightarrow> int \<Rightarrow> py_error + (source_risque \<times> workshop2)" where
  "add_source_risque s nom type_sr' ressources determination competences =
     (if \<not> (\<forall>x \<in> set [ressources, determination, competences]. 1 \<le> x \<and> x \<le> 4)
      then Inl ValueError
      else let capacite_globale =
                 py_round_ndigits (of_int (ressources + determination + competences) / 3) 1;
               sr = \<lparr>id_sr = ''SR'' @ string_of_nat (length (sources_risque s) + 1),
                     nom_sr = nom, type_sr = type_sr', ressources_sr = ressources,
                     determination_sr = determination, competences_sr = competences,
                     capacite_globale_sr = capacite_globale,
                     niveau_sr = get_capacite_level capacite_globale\<rparr>
           in Inr (sr, s\<lparr>sources_risque := sources_risque s @ [sr]\<rparr>))"

definition add_objectif_vise ::
  "workshop2 \<Rightarrow> string \<Rightarrow> string \<Rightarrow> int \<Rightarrow> py_error + (objectif_vise \<times> workshop2)" where
  "add_objectif_vise s nom description impact_potentiel =
     (if \<not> (1 \<le> impact_potentiel \<and> impact_potentiel \<le> 4) then Inl ValueError
      else let ov = \<lparr>id_ov = ''OV'' @ string_of_nat (length (objectifs_vises s) + 1),
                       nom_ov = nom, description_ov = description,
                       impact_potentiel_ov = impact_potentiel\<rparr>
           in Inr (ov, s\<lparr>objectifs_vises := objectifs_vises s @ [ov]\<rparr>))"

definition calculate_gravite :: "rat \<Rightarrow> int \<Rightarrow> int \<Rightarrow> int" where
  "calculate_gravite capacite_sr impact_ov pertinence =
     (let score = (capacite_sr * of_int pertinence * of_int impact_ov) / 10
      in if score \<le> 3 / 2 then 1
         else if score \<le> 5 / 2 then 2
         else if score \<le> 7 / 2 then 3
         else 4)"

text \<open>The empty dict returned on an unknown reference is \<open>None\<close>.\<close>

definition map_sr_to_ov ::
  "workshop2 \<Rightarrow> string \<Rightarrow> string \<Rightarrow> int \<Rightarrow> py_error + (relation_sr_ov option \<times> workshop2)" where
  "map_sr_to_ov s sr_id ov_id pertinence =
     (if \<not> (1 \<le> pertinence \<and> pertinence \<le> 4) then Inl ValueError
      else case (find (\<lambda>x. id_sr x = sr_id) (sources_risque s),
                 find (\<lambda>x. id_ov x = ov_id) (objectifs_vises s)) of
             (Some sr, Some ov) \<Rightarrow>
               (let gravite_scenario =
                      calculate_gravite (capacite_globale_sr sr) (impact_potentiel_ov ov) pertinence;
                    relation = \<lparr>sr_id_rel = sr_id, ov_id_rel = ov_id,
                                 pertinence_rel = pertinence,
                                 gravite_scenario_rel = gravite_scenario\<rparr>
                in Inr (Some relation,
                        s\<lparr>cartographie_sr_ov := cartographie_sr_ov s @ [relation]\<rparr>))
           | _ \<Rightarrow> Inr (None, s))"

definition levels_w2 :: "int \<rightharpoonup> niveau" where
  "levels_w2 = [1 \<mapsto> Faible, 2 \<mapsto> Modere, 3 \<mapsto> Eleve, 4 \<mapsto> Critique]"

definition get_risk_level_w2 :: "int \<Rightarrow> niveau" where
  "get_risk_level_w2 g = (case levels_w2 g of None \<Rightarrow> Indetermine | Some n \<Rightarrow> n)"

text \<open>One iteration of the loop over the mapping: \<open>acc\<close> is the scenario list built so far.\<close>

definition generate_step ::
  "workshop2 \<Rightarrow> relation_sr_ov \<Rightarrow> scenario_strategique list \<Rightarrow> scenario_strategique list" where
  "generate_step s relation acc =
     (case (find (\<lambda>x. id_sr x = sr_id_rel relation) (sources_risque s),
            find (\<lambda>x. id_ov x = ov_id_rel relation) (objectifs_vises s)) of
        (Some sr, Some ov) \<Rightarrow>
          acc @ [\<lparr>id_ss = ''SS'' @ string_of_nat (length acc + 1),
                  source_risque_ss = nom_sr sr,
                  source_risque_type_ss = type_sr sr,
                  objectif_vise_ss = nom_ov ov,
                  objectif_description_ss = description_ov ov,
                  gravite_ss = gravite_scenario_rel relation,
                  niveau_risque_ss = get_risk_level_w2 (gravite_scenario_rel relation),
                  pertinence_ss = pertinence_rel relation,
                  capacite_sr_ss = capacite_globale_sr sr,
                  impact_ov_ss = impact_potentiel_ov ov\<rparr>]
      | _ \<Rightarrow> acc)"

definition generate_scenarios_strategiques ::
  "workshop2 \<Rightarrow> scenario_strategique list \<times> workshop2" where
  "generate_scenarios_strategiques s =
     (let built = fold (generate_step s) (cartographie_sr_ov s) [];
          sorted_list = py_sort_reverse gravite_ss built
      in (sorted_list, s\<lparr>scenarios_strategiques := sorted_list\<rparr>))"

section \<open>Workshop3\<close>

text \<open>Only the stakeholder list of the assessment is modelled.\<close>

record partie_prenante =
  id_pp :: string
  nom_pp :: string
  type_pp :: string
  dependance_pp :: int
  exposition_pp :: int
  confiance_pp :: int
  maturite_pp :: int
  score_risque_tiers_pp :: rat
  niveau_criticite_pp :: niveau

record workshop3 =
  parties_prenantes :: "partie_prenante list"

definition get_criticite_level :: "rat \<Rightarrow> niveau" where
  "get_criticite_level score =
     (if score \<le> 3 / 2 then Faible
      else if score \<le> 5 / 2 then Modere
      else if score \<le> 7 / 2 then Eleve
      else Critique)"

definition add_partie_prenante ::
  "workshop3 \<Rightarrow> string \<Rightarrow> string \<Rightarrow> int \<Rightarrow> int \<Rightarrow> int \<Rightarrow> int \<Rightarrow> partie_prenante \<times> workshop3" where
  "add_partie_prenante s nom type_pp' dependance exposition confiance maturite =
     (let score_risque = py_round_ndigits (of_int (dependance + exposition - maturite) / 3) 1;
          pp = \<lparr>id_pp = ''PP'' @ string_of_nat (length (parties_prenantes s) + 1),
                nom_pp = nom, type_pp = type_pp', dependance_pp = dependance,
                exposition_pp = exposition, confiance_pp = confiance,
                maturite_pp = maturite, score_risque_tiers_pp = score_risque,
                niveau_criticite_pp = get_criticite_level score_risque\<rparr>
      in (pp, s\<lparr>parties_prenantes := parties_prenantes s @ [pp]\<rparr>))"

section \<open>Workshop4\<close>

record scenario_operationnel =
  id_so :: string
  scenario_strategique_ref_so :: string
  nom_so :: string
  description_so :: string
  actions_elementaires_so :: "string list"
  vraisemblance_so :: int

record action_elementaire =
  id_ae :: string
  nom_ae :: string
  technique_mitre_ae :: string
  difficulte_ae :: int
  detectabilite_ae :: int
  vraisemblance_action_ae :: int

record mesure_existante =
  id_me :: string
  nom_me :: string
  type_me :: string
  efficacite_me :: rat
  actions_couvertes_me :: "string list"

record risque_synthese =
  scenario_id_rs :: string
  nom_rs :: string
  gravite_rs :: int
  vraisemblance_rs :: int
  risque_brut_rs :: int
  risque_residuel_rs :: int
  niveau_rs :: niveau
  reduction_pct_rs :: rat

record workshop4 =
  scenarios_operationnels :: "scenario_operationnel list"
  actions_elementaires :: "action_elementaire list"
  mesures_existantes :: "mesure_existante list"
  synthese_risques :: "risque_synthese list"

definition W4_init :: workshop4 where
  "W4_init = \<lparr>scenarios_operationnels = [], actions_elementaires = [],
               mesures_existantes = [], synthese_risques = []\<rparr>"

definition add_scenario_operationnel ::
  "workshop4 \<Rightarrow> string \<Rightarrow> string \<Rightarrow> string \<Rightarrow> string list \<Rightarrow> scenario_operationnel \<times> workshop4" where
  "add_scenario_operationnel s scenario_strategique_id nom description actions =
     (let so = \<lparr>id_so = ''SO'' @ string_of_nat (length (scenarios_operationnels s) + 1),
                scenario_strategique_ref_so = scenario_strategique_id,
                nom_so = nom, description_so = description,
                actions_elementaires_so = actions, vraisemblance_so = 0\<rparr>
      in (so, s\<lparr>scenarios_operationnels := scenarios_operationnels s @ [so]\<rparr>))"

definition calculate_vraisemblance_action :: "int \<Rightarrow> int \<Rightarrow> int" where
  "calculate_vraisemblance_action difficulte detectabilite =
     (let score = (of_int ((5 - difficulte) + (5 - detectabilite)) :: rat) / 2
      in if score \<le> 3 / 2 then 1
         else if score \<le> 5 / 2 then 2
         else if score \<le> 7 / 2 then 3
         else 4)"

definition add_action_elementaire ::
  "workshop4 \<Rightarrow> string \<Rightarrow> string \<Rightarrow> int \<Rightarrow> int \<Rightarrow> action_elementaire \<times> workshop4" where
  "add_action_elementaire s nom technique_mitre difficulte detectabilite =
     (let action = \<lparr>id_ae = ''AE'' @ string_of_nat (length (actions_elementaires s) + 1),
                    nom_ae = nom, technique_mitre_ae = technique_mitre,
                    difficulte_ae = difficulte, detectabilite_ae = detectabilite,
                    vraisemblance_action_ae =
                      calculate_vraisemblance_action difficulte detectabilite\<rparr>
      in (action, s\<lparr>actions_elementaires := actions_elementaires s @ [action]\<rparr>))"

definition calculate_vraisemblance_scenario :: "workshop4 \<Rightarrow> string \<Rightarrow> int \<times> workshop4" where
  "calculate_vraisemblance_scenario s scenario_id =
     (case find (\<lambda>x. id_so x = scenario_id) (scenarios_operationnels s) of
        None \<Rightarrow> (0, s)
      | Some scenario \<Rightarrow>
          (let actions = filter (\<lambda>a. id_ae a \<in> set (actions_elementaires_so scenario))
                           (actions_elementaires s)
           in if actions = [] then (0, s)
              else let avg_vraisemblance =
                         (of_int (sum_list (map vraisemblance_action_ae actions)) :: rat)
                           / of_nat (length actions);
                       vraisemblance = py_round avg_vraisemblance
                   in (vraisemblance,
                       s\<lparr>scenarios_operationnels :=
                           update_first (\<lambda>x. id_so x = scenario_id)
                             (\<lambda>x. x\<lparr>vraisemblance_so := vraisemblance\<rparr>)
                             (scenarios_operationnels s)\<rparr>)))"

definition add_mesure_existante ::
  "workshop4 \<Rightarrow> string \<Rightarrow> string \<Rightarrow> rat \<Rightarrow> string list \<Rightarrow> mesure_existante \<times> workshop4" where
  "add_mesure_existante s nom type_mesure efficacite couverture =
     (let mesure = \<lparr>id_me = ''ME'' @ string_of_nat (length (mesures_existantes s) + 1),
                    nom_me = nom, type_me = type_mesure, efficacite_me = efficacite,
                    actions_couvertes_me = couverture\<rparr>
      in (mesure, s\<lparr>mesures_existantes := mesures_existantes s @ [mesure]\<rparr>))"

text \<open>
  The two nested loops of \<open>_calculate_risk_reduction\<close>: the accumulator is the set of
  covered action IDs (a list without repetition) and the running sum of efficacies.
\<close>

definition reduction_inner ::
  "mesure_existante \<Rightarrow> string \<Rightarrow> string list \<times> rat \<Rightarrow> string list \<times> rat" where
  "reduction_inner mesure action_id acc =
     (if action_id \<in> set (actions_couvertes_me mesure)
      then (List.insert action_id (fst acc), snd acc + efficacite_me mesure)
      else acc)"

definition calculate_risk_reduction :: "workshop4 \<Rightarrow> string list \<Rightarrow> rat" where
  "calculate_risk_reduction s action_ids =
     (if mesures_existantes s = [] then 0
      else let acc = fold (\<lambda>mesure. fold (reduction_inner mesure) action_ids)
                       (mesures_existantes s) ([], 0);
               actions_couvertes = fst acc;
               efficacite_totale = snd acc
           in if actions_couvertes = [] then 0
              else let couverture_pct =
                         (if action_ids \<noteq> []
                          then of_nat (length actions_couvertes) / of_nat (length action_ids)
                          else 0);
                       efficacite_moyenne = efficacite_totale / of_nat (length actions_couvertes)
                   in min (9 / 10) (couverture_pct * efficacite_moyenne))"

definition get_risk_level_w4 :: "int \<Rightarrow> niveau" where
  "get_risk_level_w4 score =
     (if score \<le> 2 then Faible
      else if score \<le> 4 then Acceptable
      else if score \<le> 8 then Modere
      else if score \<le> 12 then Eleve
      else Critique)"

text \<open>
  One iteration of the loop of \<open>synthetize_risks\<close> at position \<open>i\<close> of the scenario list.
  The scenario is read again after the lazy computation, as the loop variable is the
  list element that \<open>calculate_vraisemblance_scenario\<close> may have updated in place.
\<close>

definition synthetize_step :: "int \<Rightarrow> nat \<Rightarrow> workshop4 \<Rightarrow> workshop4" where
  "synthetize_step gravite_base i s =
     (let s1 = (if vraisemblance_so (scenarios_operationnels s ! i) = 0
                then snd (calculate_vraisemblance_scenario s (id_so (scenarios_operationnels s ! i)))
                else s);
          scenario = scenarios_operationnels s1 ! i;
          risque_brut = gravite_base * vraisemblance_so scenario;
          reduction = calculate_risk_reduction s1 (actions_elementaires_so scenario);
          risque_residuel = max 1 (py_round (of_int risque_brut * (1 - reduction)));
          risque = \<lparr>scenario_id_rs = id_so scenario, nom_rs = nom_so scenario,
                    gravite_rs = gravite_base, vraisemblance_rs = vraisemblance_so scenario,
                    risque_brut_rs = risque_brut, risque_residuel_rs = risque_residuel,
                    niveau_rs = get_risk_level_w4 risque_residuel,
                    reduction_pct_rs = py_round_ndigits (reduction * 100) 1\<rparr>
      in s1\<lparr>synthese_risques := synthese_risques s1 @ [risque]\<rparr>)"

definition synthetize_risks :: "workshop4 \<Rightarrow> int \<Rightarrow> risque_synthese list \<times> workshop4" where
  "synthetize_risks s gravite_base =
     (let s0 = s\<lparr>synthese_risques := []\<rparr>;
          s1 = fold (synthetize_step gravite_base)
                 [0 ..< length (scenarios_operationnels s0)] s0;
          sorted_list = py_sort_reverse risque_residuel_rs (synthese_risques s1)
      in (sorted_list, s1\<lparr>synthese_risques := sorted_list\<rparr>))"

text \<open>
  The value \<open>calculate_vraisemblance_scenario\<close> computes for a scenario: 0 when it
  references no existing action.
\<close>

definition vraisemblance_calculee :: "workshop4 \<Rightarrow> scenario_operationnel \<Rightarrow> int" where
  "vraisemblance_calculee s scenario =
     (let actions = filter (\<lambda>a. id_ae a \<in> set (actions_elementaires_so scenario))
                      (actions_elementaires s)
      in if actions = [] then 0
         else py_round ((of_int (sum_list (map vraisemblance_action_ae actions)) :: rat)
                          / of_nat (length actions)))"

text \<open>The operations that build a Workshop4 assessment, and the states they reach.\<close>

datatype w4_op =
    AddScenarioOperationnel string string string "string list"
  | AddActionElementaire string string int int
  | AddMesureExistante string string rat "string list"
  | CalculateVraisemblanceScenario string
  | SynthetizeRisks int

fun w4_exec :: "w4_op \<Rightarrow> workshop4 \<Rightarrow> workshop4" where
  "w4_exec (AddScenarioOperationnel r n d a) s = snd (add_scenario_operationnel s r n d a)"
| "w4_exec (AddActionElementaire n t d e) s = snd (add_action_elementaire s n t d e)"
| "w4_exec (AddMesureExistante n t e c) s = snd (add_mesure_existante s n t e c)"
| "w4_exec (CalculateVraisemblanceScenario i) s = snd (calculate_vraisemblance_scenario s i)"
| "w4_exec (SynthetizeRisks g) s = snd (synthetize_risks s g)"

definition w4_run :: "w4_op list \<Rightarrow> workshop4" where
  "w4_run ops = fold w4_exec ops W4_init"

section \<open>Workshop5\<close>

text \<open>
  The status literals "Non traite", "Strategie definie", "Accepte" (accents dropped)
  with their position in the life cycle; the measure status is always "Planifiee".
  Timestamps are not modelled; the review date is kept as the number of days after the
  acceptance. The treatment plan and the KPI list, which none of the modelled operations
  reads or writes, are left out of the state.
\<close>

datatype statut = NonTraite | StrategieDefinie | Accepte


datatype statut_mesure = Planifiee

record risque =
  id_r :: string
  nom_r :: string
  gravite_r :: int
  vraisemblance_r :: int
  score_brut_r :: int
  niveau_brut_r :: niveau
  scenario_reference_r :: string
  statut_r :: statut
  option_traitement_r :: "string option"
  mesures_associees_r :: "string list"
  justification_r :: "string option"

record mesure_traitement =
  id_mt :: string
  nom_mt :: string
  type_mt :: string
  description_mt :: string
  cout_estime_mt :: rat
  efficacite_mt :: rat
  delai_mise_en_oeuvre_mt :: int
  responsable_mt :: string
  statut_mt :: statut_mesure
  risques_couverts_mt :: "string list"

record risque_residuel =
  risque_id_rr :: string
  score_brut_rr :: int
  score_residuel_rr :: int
  niveau_residuel_rr :: niveau
  reduction_rr :: rat
  reduction_pct_rr :: "rat option"
  mesures_appliquees_rr :: "string list"

record acceptation =
  risque_id_ac :: string
  nom_risque_ac :: string
  score_residuel_ac :: int
  niveau_residuel_ac :: niveau
  acceptant_ac :: string
  justification_ac :: string
  jours_avant_revue_ac :: int
  conditions_ac :: "string list"

record workshop5 =
  risques :: "risque list"
  mesures_traitement :: "mesure_traitement list"
  risques_residuels :: "risque_residuel list"
  risques_acceptes :: "acceptation list"
  budget_estime :: rat

definition W5_init :: workshop5 where
  "W5_init = \<lparr>risques = [], mesures_traitement = [], risques_residuels = [],
               risques_acceptes = [], budget_estime = 0\<rparr>"

definition matrice :: "int list list" where
  "matrice = [[1, 1, 2, 2], [1, 2, 2, 3], [2, 2, 3, 4], [2, 3, 4, 4]]"

definition calculate_risk_score :: "int \<Rightarrow> int \<Rightarrow> py_error + int" where
  "calculate_risk_score gravite vraisemblance =
     (case py_index matrice (gravite - 1) of
        Inl e \<Rightarrow> Inl e
      | Inr row \<Rightarrow> py_index row (vraisemblance - 1))"

definition get_risk_level_w5 :: "int \<Rightarrow> niveau" where
  "get_risk_level_w5 score =
     (if score = 1 then Faible
      else if score = 2 then Acceptable
      else if score = 3 then Modere
      else if score = 4 then Critique
      else Indetermine)"

definition add_risque ::
  "workshop5 \<Rightarrow> string \<Rightarrow> string \<Rightarrow> int \<Rightarrow> int \<Rightarrow> string \<Rightarrow> py_error + (risque \<times> workshop5)" where
  "add_risque s risque_id nom gravite vraisemblance scenario_ref =
     (case calculate_risk_score gravite vraisemblance of
        Inl e \<Rightarrow> Inl e
      | Inr score_brut \<Rightarrow>
          (let risque = \<lparr>id_r = risque_id, nom_r = nom, gravite_r = gravite,
                         vraisemblance_r = vraisemblance, score_brut_r = score_brut,
                         niveau_brut_r = get_risk_level_w5 score_brut,
                         scenario_reference_r = scenario_ref, statut_r = NonTraite,
                         option_traitement_r = None, mesures_associees_r = [],
                         justification_r = None\<rparr>
           in Inr (risque, s\<lparr>risques := risques s @ [risque]\<rparr>)))"

text \<open>The four valid options; the accented letters are their UTF-8 bytes.\<close>

definition Attenuation :: string where
  "Attenuation = ''Att'' @ [CHR 0xC3, CHR 0xA9] @ ''nuation''"

definition Evitement :: string where
  "Evitement = [CHR 0xC3, CHR 0x89] @ ''vitement''"

definition options_valides :: "string list" where
  "options_valides = [Attenuation, ''Transfert'', Evitement, ''Acceptation'']"

definition define_traitement ::
  "workshop5 \<Rightarrow> string \<Rightarrow> string \<Rightarrow> string \<Rightarrow> py_error + (risque \<times> workshop5)" where
  "define_traitement s risque_id option justification =
     (if option \<notin> set options_valides then Inl ValueError
      else case find (\<lambda>r. id_r r = risque_id) (risques s) of
             None \<Rightarrow> Inl ValueError
           | Some risque \<Rightarrow>
               (let upd = (\<lambda>r. r\<lparr>option_traitement_r := Some option,
                                  justification_r := Some justification,
                                  statut_r := StrategieDefinie\<rparr>)
                in Inr (upd risque,
                        s\<lparr>risques := update_first (\<lambda>r. id_r r = risque_id) upd (risques s)\<rparr>)))"

definition add_mesure_traitement ::
  "workshop5 \<Rightarrow> string \<Rightarrow> string \<Rightarrow> string \<Rightarrow> rat \<Rightarrow> rat \<Rightarrow> int \<Rightarrow> string
     \<Rightarrow> py_error + (mesure_traitement \<times> workshop5)" where
  "add_mesure_traitement s nom type_mesure description cout_estime efficacite
       delai_mise_en_oeuvre responsable =
     (if \<not> (0 \<le> efficacite \<and> efficacite \<le> 1) then Inl ValueError
      else let mesure = \<lparr>id_mt = ''M'' @ string_of_nat (length (mesures_traitement s) + 1),
                         nom_mt = nom, type_mt = type_mesure, description_mt = description,
                         cout_estime_mt = cout_estime, efficacite_mt = efficacite,
                         delai_mise_en_oeuvre_mt = delai_mise_en_oeuvre,
                         responsable_mt = responsable, statut_mt = Planifiee,
                         risques_couverts_mt = []\<rparr>
           in Inr (mesure, s\<lparr>mesures_traitement := mesures_traitement s @ [mesure],
                              budget_estime := budget_estime s + cout_estime\<rparr>))"

definition associate_mesure_to_risque :: "workshop5 \<Rightarrow> string \<Rightarrow> string \<Rightarrow> bool \<times> workshop5" where
  "associate_mesure_to_risque s risque_id mesure_id =
     (case (find (\<lambda>r. id_r r = risque_id) (risques s),
            find (\<lambda>m. id_mt m = mesure_id) (mesures_traitement s)) of
        (Some risque, Some mesure) \<Rightarrow>
          (True,
           s\<lparr>risques :=
               update_first (\<lambda>r. id_r r = risque_id)
                 (\<lambda>r. if mesure_id \<notin> set (mesures_associees_r r)
                      then r\<lparr>mesures_associees_r := mesures_associees_r r @ [mesure_id]\<rparr>
                      else r)
                 (risques s),
             mesures_traitement :=
               update_first (\<lambda>m. id_mt m = mesure_id)
                 (\<lambda>m. if risque_id \<notin> set (risques_couverts_mt m)
                      then m\<lparr>risques_couverts_mt := risques_couverts_mt m @ [risque_id]\<rparr>
                      else m)
                 (mesures_traitement s)\<rparr>)
      | _ \<Rightarrow> (False, s))"

definition calculate_risque_residuel ::
  "workshop5 \<Rightarrow> string \<Rightarrow> py_error + (risque_residuel \<times> workshop5)" where
  "calculate_risque_residuel s risque_id =
     (case find (\<lambda>r. id_r r = risque_id) (risques s) of
        None \<Rightarrow> Inl ValueError
      | Some risque \<Rightarrow>
          (let mesures = filter (\<lambda>m. id_mt m \<in> set (mesures_associees_r risque))
                           (mesures_traitement s);
               computed =
                 (if mesures = []
                  then Inr \<lparr>risque_id_rr = risque_id, score_brut_rr = score_brut_r risque,
                            score_residuel_rr = score_brut_r risque,
                            niveau_residuel_rr = niveau_brut_r risque,
                            reduction_rr = 0, reduction_pct_rr = None,
                            mesures_appliquees_rr = []\<rparr>
                  else let efficacite_totale =
                             min (95 / 100) (sum_list (map efficacite_mt mesures));
                           reduction = of_int (score_brut_r risque) * efficacite_totale;
                           score_residuel =
                             max 1 (py_round (of_int (score_brut_r risque) - reduction))
                       in if score_brut_r risque = 0 then Inl ZeroDivisionError
                          else Inr \<lparr>risque_id_rr = risque_id,
                                    score_brut_rr = score_brut_r risque,
                                    score_residuel_rr = score_residuel,
                                    niveau_residuel_rr = get_risk_level_w5 score_residuel,
                                    reduction_rr = py_round_ndigits reduction 2,
                                    reduction_pct_rr =
                                      Some (py_round_ndigits
                                        ((reduction / of_int (score_brut_r risque)) * 100) 1),
                                    mesures_appliquees_rr = map id_mt mesures\<rparr>)
           in case computed of
                Inl e \<Rightarrow> Inl e
              | Inr risque_residuel \<Rightarrow>
                  (let kept =
                         (case find (\<lambda>r. risque_id_rr r = risque_id) (risques_residuels s) of
                            None \<Rightarrow> risques_residuels s
                          | Some existing \<Rightarrow> remove1 existing (risques_residuels s))
                   in Inr (risque_residuel,
                           s\<lparr>risques_residuels := kept @ [risque_residuel]\<rparr>))))"

definition calculate_review_date :: "int \<Rightarrow> int" where
  "calculate_review_date score_residuel = (if score_residuel \<ge> 3 then 90 else 365)"

definition accept_risque ::
  "workshop5 \<Rightarrow> string \<Rightarrow> string \<Rightarrow> string \<Rightarrow> py_error + (acceptation \<times> workshop5)" where
  "accept_risque s risque_id acceptant justification =
     (case find (\<lambda>r. id_r r = risque_id) (risques s) of
        None \<Rightarrow> Inl ValueError
      | Some risque \<Rightarrow>
          (case calculate_risque_residuel s risque_id of
             Inl e \<Rightarrow> Inl e
           | Inr (risque_res, s1) \<Rightarrow>
               (let acceptation =
                      \<lparr>risque_id_ac = risque_id, nom_risque_ac = nom_r risque,
                       score_residuel_ac = score_residuel_rr risque_res,
                       niveau_residuel_ac = niveau_residuel_rr risque_res,
                       acceptant_ac = acceptant, justification_ac = justification,
                       jours_avant_revue_ac = calculate_review_date (score_residuel_rr risque_res),
                       conditions_ac = []\<rparr>
                in Inr (acceptation,
                        s1\<lparr>risques_acceptes := risques_acceptes s1 @ [acceptation],
                           risques :=
                             update_first (\<lambda>r. id_r r = risque_id)
                               (\<lambda>r. r\<lparr>statut_r := Accepte\<rparr>) (risques s1)\<rparr>))))"

text \<open>
  The operations of the treatment workshop as values, and the state after a call:
  a call that raises leaves the state as it was, since every operation raises before
  its first assignment.
\<close>

datatype w5_op =
    AddRisque string string int int string
  | DefineTraitement string string string
  | AddMesureTraitement string string string rat rat int string
  | AssociateMesure string string
  | CalculateRisqueResiduel string
  | AcceptRisque string string string

definition state_after :: "'s \<Rightarrow> py_error + ('a \<times> 's) \<Rightarrow> 's" where
  "state_after s r = (case r of Inl e \<Rightarrow> s | Inr (v, s') \<Rightarrow> s')"

fun w5_exec :: "w5_op \<Rightarrow> workshop5 \<Rightarrow> workshop5" where
  "w5_exec (AddRisque i n g v r) s = state_after s (add_risque s i n g v r)"
| "w5_exec (DefineTraitement i opt j) s = state_after s (define_traitement s i opt j)"
| "w5_exec (AddMesureTraitement n t d c e dl r) s =
     state_after s (add_mesure_traitement s n t d c e dl r)"
| "w5_exec (AssociateMesure i m) s = snd (associate_mesure_to_risque s i m)"
| "w5_exec (CalculateRisqueResiduel i) s = state_after s (calculate_risque_residuel s i)"
| "w5_exec (AcceptRisque i a j) s = state_after s (accept_risque s i a j)"

definition w5_run :: "w5_op list \<Rightarrow> workshop5" where
  "w5_run ops = fold w5_exec ops W5_init"

definition W2_init :: workshop2 where
  "W2_init = \<lparr>sources_risque = [], objectifs_vises = [], cartographie_sr_ov = [],
               scenarios_strategiques = []\<rparr>"

text \<open>
  A mapping entry resolves when both of its IDs are carried by a registered entity;
  a scenario matches an entry when every field but its identifier is the one the loop
  of \<open>generate_scenarios_strategiques\<close> derives from the entry and the entities found.
\<close>

definition resolves :: "workshop2 \<Rightarrow> relation_sr_ov \<Rightarrow> bool" where
  "resolves s r =
     (sr_id_rel r \<in> id_sr ` set (sources_risque s) \<and>
      ov_id_rel r \<in> id_ov ` set (objectifs_vises s))"

definition scenario_matches :: "workshop2 \<Rightarrow> relation_sr_ov \<Rightarrow> scenario_strategique \<Rightarrow> bool" where
  "scenario_matches s r sc =
     (case (find (\<lambda>x. id_sr x = sr_id_rel r) (sources_risque s),
            find (\<lambda>x. id_ov x = ov_id_rel r) (objectifs_vises s)) of
        (Some sr, Some ov) \<Rightarrow>
          source_risque_ss sc = nom_sr sr \<and> source_risque_type_ss sc = type_sr sr \<and>
          objectif_vise_ss sc = nom_ov ov \<and> objectif_description_ss sc = description_ov ov \<and>
          gravite_ss sc = gravite_scenario_rel r \<and>
          niveau_risque_ss sc = get_risk_level_w2 (gravite_scenario_rel r) \<and>
          pertinence_ss sc = pertinence_rel r \<and>
          capacite_sr_ss sc = capacite_globale_sr sr \<and>
          impact_ov_ss sc = impact_potentiel_ov ov
      | _ \<Rightarrow> False)"


text \<open>
  The link invariant between risks and measures, the distinctness of identifiers, a
  sequence of association calls, and the two conditional appends of
  \<open>associate_mesure_to_risque\<close>.
\<close>

definition link_inv :: "workshop5 \<Rightarrow> bool" where
  "link_inv s =
     (\<forall>r \<in> set (risques s). \<forall>m \<in> set (mesures_traitement s).
        (id_mt m \<in> set (mesures_associees_r r)) = (id_r r \<in> set (risques_couverts_mt m)))"

definition ids_distinct :: "workshop5 \<Rightarrow> bool" where
  "ids_distinct s =
     (distinct (map id_r (risques s)) \<and> distinct (map id_mt (mesures_traitement s)))"

definition associate_all :: "(string \<times> string) list \<Rightarrow> workshop5 \<Rightarrow> workshop5" where
  "associate_all calls s =
     fold (\<lambda>c s'. snd (associate_mesure_to_risque s' (fst c) (snd c))) calls s"

definition add_mesure_id :: "string \<Rightarrow> risque \<Rightarrow> risque" where
  "add_mesure_id m r =
     (if m \<notin> set (mesures_associees_r r)
      then r\<lparr>mesures_associees_r := mesures_associees_r r @ [m]\<rparr> else r)"

definition add_risque_id :: "string \<Rightarrow> mesure_traitement \<Rightarrow> mesure_traitement" where
  "add_risque_id i m =
     (if i \<notin> set (risques_couverts_mt m)
      then m\<lparr>risques_couverts_mt := risques_couverts_mt m @ [i]\<rparr> else m)"

text \<open>Two example assessments: one with a repeated risk ID, one without.\<close>

definition W5_doublon :: workshop5 where
  "W5_doublon =
     w5_run [AddRisque ''R1'' ''Intrusion'' 3 3 [], AddRisque ''R1'' ''Fuite'' 2 2 [],
             AddMesureTraitement ''Pare-feu'' ''Preventif'' [] 1000 (1 / 2) 30 ''RSSI'']"

definition ops_lie :: "w5_op list" where
  "ops_lie =
     [AddRisque ''R1'' ''Intrusion'' 3 3 [], AddRisque ''R2'' ''Fuite'' 2 2 [],
      AddMesureTraitement ''Pare-feu'' ''Preventif'' [] 1000 (1 / 2) 30 ''RSSI'']"

definition W5_lie :: workshop5 where
  "W5_lie = w5_run ops_lie"


text \<open>
  The measures associated with a risk, and their combined efficacy as the specification
  words it: the sum of their efficacies, capped at 0.95.
\<close>

definition mesures_du_risque :: "workshop5 \<Rightarrow> risque \<Rightarrow> mesure_traitement list" where
  "mesures_du_risque s r =
     filter (\<lambda>m. id_mt m \<in> set (mesures_associees_r r)) (mesures_traitement s)"

definition efficacite_combinee :: "workshop5 \<Rightarrow> risque \<Rightarrow> rat" where
  "efficacite_combinee s r = min (95 / 100) (sum_list (map efficacite_mt (mesures_du_risque s r)))"

text \<open>The residual list once the prior entry of a risk, if any, has been removed.\<close>

definition residuels_kept :: "workshop5 \<Rightarrow> string \<Rightarrow> risque_residuel list" where
  "residuels_kept s i =
     (case find (\<lambda>r. risque_id_rr r = i) (risques_residuels s) of
        None \<Rightarrow> risques_residuels s
      | Some existing \<Rightarrow> remove1 existing (risques_residuels s))"

text \<open>The residual entry built by the branch with measures.\<close>

definition residuel_avec_mesures :: "workshop5 \<Rightarrow> string \<Rightarrow> risque \<Rightarrow> risque_residuel" where
  "residuel_avec_mesures s i r =
     \<lparr>risque_id_rr = i, score_brut_rr = score_brut_r r,
      score_residuel_rr =
        max 1 (py_round (of_int (score_brut_r r) - of_int (score_brut_r r) * efficacite_combinee s r)),
      niveau_residuel_rr =
        get_risk_level_w5
          (max 1 (py_round (of_int (score_brut_r r) - of_int (score_brut_r r) * efficacite_combinee s r))),
      reduction_rr = py_round_ndigits (of_int (score_brut_r r) * efficacite_combinee s r) 2,
      reduction_pct_rr =
        Some (py_round_ndigits
          ((of_int (score_brut_r r) * efficacite_combinee s r / of_int (score_brut_r r)) * 100) 1),
      mesures_appliquees_rr = map id_mt (mesures_du_risque s r)\<rparr>"



text \<open>
  The existing actions a scenario references, the mean of their likelihoods, and the
  lazy recomputation: a stored likelihood of 0 is replaced by the computed one, any other
  stored value is kept.
\<close>

definition actions_du_scenario :: "workshop4 \<Rightarrow> scenario_operationnel \<Rightarrow> action_elementaire list" where
  "actions_du_scenario s scenario =
     filter (\<lambda>a. id_ae a \<in> set (actions_elementaires_so scenario)) (actions_elementaires s)"

definition moyenne_vraisemblance :: "workshop4 \<Rightarrow> scenario_operationnel \<Rightarrow> rat" where
  "moyenne_vraisemblance s scenario =
     of_int (sum_list (map vraisemblance_action_ae (actions_du_scenario s scenario)))
       / of_nat (length (actions_du_scenario s scenario))"

definition lazy_vraisemblance :: "workshop4 \<Rightarrow> scenario_operationnel \<Rightarrow> scenario_operationnel" where
  "lazy_vraisemblance s scenario =
     (if vraisemblance_so scenario = 0
      then scenario\<lparr>vraisemblance_so := vraisemblance_calculee s scenario\<rparr>
      else scenario)"

text \<open>The scenario identifiers are SO1, SO2, ... in list order.\<close>

definition so_ids_sequential :: "workshop4 \<Rightarrow> bool" where
  "so_ids_sequential s =
     (map id_so (scenarios_operationnels s) =
        map (\<lambda>k. ''SO'' @ string_of_nat (Suc k)) [0 ..< length (scenarios_operationnels s)])"

text \<open>Two actions of likelihood 4 and 1 and one scenario that references both.\<close>

definition ops_deux_actions :: "w4_op list" where
  "ops_deux_actions =
     [AddActionElementaire ''Phishing'' ''T1566'' 1 1,
      AddActionElementaire ''Exfiltration'' ''T1041'' 4 4,
      AddScenarioOperationnel ''SS1'' ''Compromission'' [] [''AE1'', ''AE2'']]"

definition scenario_SO1 :: scenario_operationnel where
  "scenario_SO1 =
     \<lparr>id_so = ''SO1'', scenario_strategique_ref_so = ''SS1'', nom_so = ''Compromission'',
      description_so = [], actions_elementaires_so = [''AE1'', ''AE2''],
      vraisemblance_so = 0\<rparr>"

text \<open>The measure identifiers are M1, M2, ... in list order.\<close>

definition mt_ids_sequential :: "workshop5 \<Rightarrow> bool" where
  "mt_ids_sequential s =
     (map id_mt (mesures_traitement s) =
        map (\<lambda>k. ''M'' @ string_of_nat (Suc k)) [0 ..< length (mesures_traitement s)])"

section \<open>Properties of the Python helpers\<close>


lemma py_round_of_int [simp]: "py_round (of_int n) = n"
  by (simp add: py_round_def)


lemma py_round_nearest: "\<bar>of_int (py_round x) - x\<bar> \<le> 1 / 2"
proof -
  define d where "d = x - of_int \<lfloor>x\<rfloor>"
  have d: "0 \<le> d" "d < 1"
    unfolding d_def by linarith+
  have x: "x = of_int \<lfloor>x\<rfloor> + d"
    by (simp add: d_def)
  have "py_round x = \<lfloor>x\<rfloor> \<and> d \<le> 1 / 2 \<or> py_round x = \<lfloor>x\<rfloor> + 1 \<and> 1 / 2 \<le> d"
    unfolding py_round_def Let_def d_def [symmetric] by auto
  then show ?thesis
  proof
    assume a: "py_round x = \<lfloor>x\<rfloor> \<and> d \<le> 1 / 2"
    then have "of_int (py_round x) - x = - d"
      using x by simp
    then show ?thesis
      using a d by simp
  next
    assume a: "py_round x = \<lfloor>x\<rfloor> + 1 \<and> 1 / 2 \<le> d"
    then have "of_int (py_round x) - x = 1 - d"
      using x by simp
    then show ?thesis
      using a d by simp
  qed
qed

text \<open>The decimal representation determines the number.\<close>

lemma digit_char_code:
  assumes "d < 10"
  shows "(of_char (digit_char d) :: nat) = 48 + d"
proof -
  have "d = 0 \<or> d = 1 \<or> d = 2 \<or> d = 3 \<or> d = 4 \<or> d = 5 \<or> d = 6 \<or> d = 7 \<or> d = 8 \<or> d = 9"
    using assms by arith
  then show ?thesis
    by (elim disjE) (simp_all add: digit_char_def)
qed

lemma digit_char_inj:
  assumes "a < 10" "b < 10" "digit_char a = digit_char b"
  shows "a = b"
proof -
  have "(of_char (digit_char a) :: nat) = of_char (digit_char b)"
    using assms(3) by simp
  then show ?thesis
    using digit_char_code [OF assms(1)] digit_char_code [OF assms(2)] by simp
qed

lemma string_of_nat_nonempty: "string_of_nat n \<noteq> []"
  by (subst string_of_nat.simps) simp

lemma string_of_nat_inj: "string_of_nat m = string_of_nat n \<Longrightarrow> m = n"
proof (induction m arbitrary: n rule: string_of_nat.induct)
  case (1 m)
  show ?case
  proof (cases "m < 10")
    case m: True
    show ?thesis
    proof (cases "n < 10")
      case True
      have "[digit_char m] = [digit_char n]"
        using "1.prems" m True by (simp add: string_of_nat.simps [of m] string_of_nat.simps [of n])
      then show ?thesis
        using digit_char_inj [OF m True] by simp
    next
      case False
      have "[digit_char m] = string_of_nat (n div 10) @ [digit_char (n mod 10)]"
        using "1.prems" m False by (simp add: string_of_nat.simps [of m] string_of_nat.simps [of n])
      then have "string_of_nat (n div 10) = []"
        by simp
      then show ?thesis
        using string_of_nat_nonempty by blast
    qed
  next
    case m: False
    show ?thesis
    proof (cases "n < 10")
      case True
      have "string_of_nat (m div 10) @ [digit_char (m mod 10)] = [digit_char n]"
        using "1.prems" m True by (simp add: string_of_nat.simps [of m] string_of_nat.simps [of n])
      then have "string_of_nat (m div 10) = []"
        by simp
      then show ?thesis
        using string_of_nat_nonempty by blast
    next
      case False
      have "string_of_nat (m div 10) @ [digit_char (m mod 10)] =
            string_of_nat (n div 10) @ [digit_char (n mod 10)]"
        using "1.prems" m False by (simp add: string_of_nat.simps [of m] string_of_nat.simps [of n])
      then have e: "string_of_nat (m div 10) = string_of_nat (n div 10)"
          "digit_char (m mod 10) = digit_char (n mod 10)"
        by simp_all
      have "m div 10 = n div 10"
        using "1.IH" [OF m e(1)] .
      moreover have "m mod 10 = n mod 10"
        using digit_char_inj [OF _ _ e(2)] by simp
      ultimately show ?thesis
        by (metis div_mult_mod_eq)
    qed
  qed
qed

section \<open>RiskCalculator: the matrix and the residual risk\<close>

text \<open>
  C1. For gravity and likelihood both in 1..4, \<open>calculate_risk_level\<close> returns the entry
  of the 4x4 table of the specification together with its level name (1 Faible/Low,
  2 Acceptable, 3 Modere/Moderate, 4 Critique/Critical); when either input is outside
  1..4 the call raises ValueError and returns nothing.
\<close>

theorem calculate_risk_level_table:
  "(1 \<le> g \<and> g \<le> 4 \<and> 1 \<le> l \<and> l \<le> 4 \<longrightarrow>
      calculate_risk_level g l = Inr (matrix_spec g l, level_spec (matrix_spec g l))) \<and>
   (\<not> (1 \<le> g \<and> g \<le> 4 \<and> 1 \<le> l \<and> l \<le> 4) \<longrightarrow>
      calculate_risk_level g l = Inl ValueError)"
proof (intro conjI impI)
  assume r: "1 \<le> g \<and> g \<le> 4 \<and> 1 \<le> l \<and> l \<le> 4"
  then have "g = 1 \<or> g = 2 \<or> g = 3 \<or> g = 4" and "l = 1 \<or> l = 2 \<or> l = 3 \<or> l = 4"
    by arith+
  then show "calculate_risk_level g l = Inr (matrix_spec g l, level_spec (matrix_spec g l))"
    by (elim disjE)
       (simp_all add: calculate_risk_level_def py_index_def RISK_MATRIX_def levels_def
          matrix_spec_def level_spec_def)
next
  assume "\<not> (1 \<le> g \<and> g \<le> 4 \<and> 1 \<le> l \<and> l \<le> 4)"
  then show "calculate_risk_level g l = Inl ValueError"
    by (simp add: calculate_risk_level_def)
qed

theorem calculate_risk_level_table_witness:
  "calculate_risk_level 3 2 = Inr (2, Acceptable) \<and>
   calculate_risk_level 4 4 = Inr (4, Critique) \<and>
   calculate_risk_level 1 1 = Inr (1, Faible) \<and>
   calculate_risk_level 5 1 = Inl ValueError \<and>
   calculate_risk_level 2 0 = Inl ValueError"
  using calculate_risk_level_table [of 3 2] calculate_risk_level_table [of 4 4]
    calculate_risk_level_table [of 1 1] calculate_risk_level_table [of 5 1]
    calculate_risk_level_table [of 2 0]
  by (simp add: matrix_spec_def level_spec_def)







section \<open>Workshop3: the third-party score ignores trust\<close>

text \<open>
  C9. Two calls of \<open>add_partie_prenante\<close> on the same state whose arguments differ only
  in \<open>confiance\<close> give stakeholders with the same \<open>score_risque_tiers\<close> and the same
  \<open>niveau_criticite\<close>: the score is \<open>round((dependance + exposition - maturite) / 3, 1)\<close>,
  the level is its band, and the stakeholder is appended to the list.
\<close>

theorem add_partie_prenante_confiance_independent:
  "score_risque_tiers_pp (fst (add_partie_prenante s nom t d e c1 m)) =
     score_risque_tiers_pp (fst (add_partie_prenante s nom t d e c2 m)) \<and>
   niveau_criticite_pp (fst (add_partie_prenante s nom t d e c1 m)) =
     niveau_criticite_pp (fst (add_partie_prenante s nom t d e c2 m)) \<and>
   score_risque_tiers_pp (fst (add_partie_prenante s nom t d e c1 m)) =
     py_round_ndigits (of_int (d + e - m) / 3) 1 \<and>
   niveau_criticite_pp (fst (add_partie_prenante s nom t d e c1 m)) =
     get_criticite_level (py_round_ndigits (of_int (d + e - m) / 3) 1) \<and>
   parties_prenantes (snd (add_partie_prenante s nom t d e c1 m)) =
     parties_prenantes s @ [fst (add_partie_prenante s nom t d e c1 m)]"
  by (simp add: add_partie_prenante_def Let_def)

section \<open>Unknown references\<close>

lemma find_None_absent: "k \<notin> f ` set xs \<Longrightarrow> find (\<lambda>x. f x = k) xs = None"
  by (auto simp: find_None_iff)

lemma map_sr_to_ov_unknown:
  assumes "1 \<le> pertinence" "pertinence \<le> 4"
    and "find (\<lambda>x. id_sr x = sr_id) (sources_risque s) = None \<or>
         find (\<lambda>x. id_ov x = ov_id) (objectifs_vises s) = None"
  shows "map_sr_to_ov s sr_id ov_id pertinence = Inr (None, s)"
proof (cases "find (\<lambda>x. id_sr x = sr_id) (sources_risque s)")
  case None
  then show ?thesis
    using assms(1,2) by (simp add: map_sr_to_ov_def)
next
  case (Some a)
  then have "find (\<lambda>x. id_ov x = ov_id) (objectifs_vises s) = None"
    using assms(3) by simp
  then show ?thesis
    using assms(1,2) Some by (simp add: map_sr_to_ov_def)
qed

text \<open>
  C6. Unknown references are handled differently per operation. With a relevance in 1..4,
  \<open>map_sr_to_ov\<close> called with a source ID or an objective ID that no registered entity
  carries returns the empty result and the assessment it was given. In Workshop5,
  \<open>define_traitement\<close>, \<open>calculate_risque_residuel\<close> and \<open>accept_risque\<close> called with a
  risk ID that no registered risk carries raise ValueError.
\<close>

theorem unknown_reference_asymmetry:
  "(1 \<le> pertinence \<and> pertinence \<le> 4 \<and>
      (sr_id \<notin> id_sr ` set (sources_risque s) \<or> ov_id \<notin> id_ov ` set (objectifs_vises s)) \<longrightarrow>
      map_sr_to_ov s sr_id ov_id pertinence = Inr (None, s)) \<and>
   (risque_id \<notin> id_r ` set (risques w) \<longrightarrow>
      define_traitement w risque_id opt justification = Inl ValueError \<and>
      calculate_risque_residuel w risque_id = Inl ValueError \<and>
      accept_risque w risque_id acceptant justification = Inl ValueError)"
proof (intro conjI impI)
  assume a: "1 \<le> pertinence \<and> pertinence \<le> 4 \<and>
      (sr_id \<notin> id_sr ` set (sources_risque s) \<or> ov_id \<notin> id_ov ` set (objectifs_vises s))"
  then have p: "1 \<le> pertinence" "pertinence \<le> 4"
    by simp_all
  from a have "sr_id \<notin> id_sr ` set (sources_risque s) \<or> ov_id \<notin> id_ov ` set (objectifs_vises s)"
    by simp
  then have "find (\<lambda>x. id_sr x = sr_id) (sources_risque s) = None \<or>
             find (\<lambda>x. id_ov x = ov_id) (objectifs_vises s) = None"
  proof
    assume "sr_id \<notin> id_sr ` set (sources_risque s)"
    then show ?thesis
      by (simp add: find_None_absent)
  next
    assume "ov_id \<notin> id_ov ` set (objectifs_vises s)"
    then show ?thesis
      by (simp add: find_None_absent)
  qed
  then show "map_sr_to_ov s sr_id ov_id pertinence = Inr (None, s)"
    by (rule map_sr_to_ov_unknown [OF p])
next
  assume "risque_id \<notin> id_r ` set (risques w)"
  then have n: "find (\<lambda>r. id_r r = risque_id) (risques w) = None"
    by (rule find_None_absent)
  show "define_traitement w risque_id opt justification = Inl ValueError"
    using n by (simp add: define_traitement_def)
  show "calculate_risque_residuel w risque_id = Inl ValueError"
    using n by (simp add: calculate_risque_residuel_def)
  show "accept_risque w risque_id acceptant justification = Inl ValueError"
    using n by (simp add: accept_risque_def)
qed

theorem unknown_reference_asymmetry_witness:
  "map_sr_to_ov W2_init ''SR1'' ''OV1'' 3 = Inr (None, W2_init) \<and>
   define_traitement W5_init ''R1'' ''Transfert'' ''j'' = Inl ValueError \<and>
   calculate_risque_residuel W5_init ''R1'' = Inl ValueError \<and>
   accept_risque W5_init ''R1'' ''a'' ''j'' = Inl ValueError"
proof -
  have h1: "''SR1'' \<notin> id_sr ` set (sources_risque W2_init)"
    by (simp add: W2_init_def)
  have h2: "''R1'' \<notin> id_r ` set (risques W5_init)"
    by (simp add: W5_init_def)
  show ?thesis
    using h1 h2 unknown_reference_asymmetry [of 3 "''SR1''" W2_init "''OV1''" "''R1''" W5_init
        "''Transfert''" "''j''" "''a''"]
    by simp
qed

section \<open>Add operations without a range check\<close>

text \<open>
  C4. The claim that every add operation rejects an out-of-range rating fails on the code:
  \<open>add_mesure_existante\<close> stores a measure of efficacy 1.5, and \<open>add_risque\<close> with
  gravity 0 reads the last row of the matrix through Python's negative index and stores
  a risk of gross score 2. The sibling operations \<open>add_mesure_traitement\<close> and
  \<open>calculate_risk_level\<close> reject the same values with ValueError.
\<close>

theorem add_without_range_check:
  "add_mesure_existante W4_init ''Pare-feu'' ''Preventif'' (3 / 2) [] =
     (\<lparr>id_me = ''ME1'', nom_me = ''Pare-feu'', type_me = ''Preventif'',
        efficacite_me = 3 / 2, actions_couvertes_me = []\<rparr>,
      W4_init\<lparr>mesures_existantes :=
        [\<lparr>id_me = ''ME1'', nom_me = ''Pare-feu'', type_me = ''Preventif'',
           efficacite_me = 3 / 2, actions_couvertes_me = []\<rparr>]\<rparr>) \<and>
   add_risque W5_init ''R1'' ''Intrusion'' 0 1 [] =
     Inr (\<lparr>id_r = ''R1'', nom_r = ''Intrusion'', gravite_r = 0, vraisemblance_r = 1,
           score_brut_r = 2, niveau_brut_r = Acceptable, scenario_reference_r = [],
           statut_r = NonTraite, option_traitement_r = None, mesures_associees_r = [],
           justification_r = None\<rparr>,
          W5_init\<lparr>risques :=
            [\<lparr>id_r = ''R1'', nom_r = ''Intrusion'', gravite_r = 0, vraisemblance_r = 1,
               score_brut_r = 2, niveau_brut_r = Acceptable, scenario_reference_r = [],
               statut_r = NonTraite, option_traitement_r = None, mesures_associees_r = [],
               justification_r = None\<rparr>]\<rparr>) \<and>
   add_mesure_traitement W5_init ''Pare-feu'' ''Preventif'' [] 1000 (3 / 2) 30 ''RSSI'' =
     Inl ValueError \<and>
   calculate_risk_level 0 1 = Inl ValueError"
  by code_simp

section \<open>Workshop2: generation of the strategic scenarios\<close>

lemma find_Some_present: "k \<in> f ` set xs \<Longrightarrow> \<exists>x. find (\<lambda>x. f x = k) xs = Some x"
  by (induction xs) auto

lemma generate_step_resolves:
  assumes "resolves s r"
  shows "\<exists>sc. generate_step s r acc = acc @ [sc] \<and> scenario_matches s r sc"
proof -
  obtain sr where sr: "find (\<lambda>x. id_sr x = sr_id_rel r) (sources_risque s) = Some sr"
    using assms find_Some_present [of "sr_id_rel r" id_sr "sources_risque s"]
    by (auto simp: resolves_def)
  obtain ov where ov: "find (\<lambda>x. id_ov x = ov_id_rel r) (objectifs_vises s) = Some ov"
    using assms find_Some_present [of "ov_id_rel r" id_ov "objectifs_vises s"]
    by (auto simp: resolves_def)
  show ?thesis
    by (simp add: generate_step_def scenario_matches_def sr ov)
qed

lemma generate_step_unresolved:
  assumes "\<not> resolves s r"
  shows "generate_step s r acc = acc"
proof (cases "sr_id_rel r \<in> id_sr ` set (sources_risque s)")
  case False
  then have "find (\<lambda>x. id_sr x = sr_id_rel r) (sources_risque s) = None"
    by (rule find_None_absent)
  then show ?thesis
    by (simp add: generate_step_def)
next
  case True
  then have "ov_id_rel r \<notin> id_ov ` set (objectifs_vises s)"
    using assms by (simp add: resolves_def)
  then have "find (\<lambda>x. id_ov x = ov_id_rel r) (objectifs_vises s) = None"
    by (rule find_None_absent)
  then show ?thesis
    by (simp add: generate_step_def split: option.splits)
qed

lemma fold_generate_step:
  "\<exists>ys. fold (generate_step s) rels acc = acc @ ys \<and>
        list_all2 (scenario_matches s) (filter (resolves s) rels) ys"
proof (induction rels arbitrary: acc)
  case Nil
  then show ?case by simp
next
  case (Cons r rels)
  show ?case
  proof (cases "resolves s r")
    case True
    then obtain sc where sc: "generate_step s r acc = acc @ [sc]" "scenario_matches s r sc"
      using generate_step_resolves by blast
    obtain ys where ys: "fold (generate_step s) rels (acc @ [sc]) = (acc @ [sc]) @ ys"
        "list_all2 (scenario_matches s) (filter (resolves s) rels) ys"
      using Cons.IH by blast
    have "fold (generate_step s) (r # rels) acc = acc @ (sc # ys)"
      using sc(1) ys(1) by simp
    moreover have "list_all2 (scenario_matches s) (filter (resolves s) (r # rels)) (sc # ys)"
      using True sc(2) ys(2) by simp
    ultimately show ?thesis by blast
  next
    case False
    then show ?thesis
      using Cons.IH [of acc] by (simp add: generate_step_unresolved)
  qed
qed

lemma py_sort_reverse_length: "length (py_sort_reverse k xs) = length xs"
  by (simp add: py_sort_reverse_def)

lemma py_sort_reverse_mset: "mset (py_sort_reverse k xs) = mset xs"
  by (simp add: py_sort_reverse_def)

lemma py_sort_reverse_stable:
  "filter (\<lambda>y. k y = g) (py_sort_reverse k xs) = filter (\<lambda>y. k y = g) xs"
  by (simp add: py_sort_reverse_def rev_filter [symmetric] sort_key_stable)

lemma py_sort_reverse_sorted:
  "sorted_wrt (\<lambda>a b. k a \<ge> k b) (py_sort_reverse k xs)"
proof -
  have "sorted (map k (sort_key k (rev xs)))"
    by (rule sorted_sort_key)
  then have "sorted_wrt (\<lambda>a b. k a \<le> k b) (sort_key k (rev xs))"
    by (simp add: sorted_map)
  then show ?thesis
    by (simp add: py_sort_reverse_def sorted_wrt_rev)
qed

text \<open>
  C5. \<open>generate_scenarios_strategiques\<close> rebuilds the scenario list from the mapping
  alone, whatever the previous list was: the loop builds one scenario per mapping entry
  whose two IDs resolve, in mapping order; the returned list is a permutation of the
  built one, has as many scenarios as there are resolving entries, is sorted
  non-increasing by gravity, and keeps scenarios of equal gravity in the order in which
  they were built (stable sort); it is the list stored in the assessment.
\<close>

theorem generate_scenarios_strategiques_sorted:
  "list_all2 (scenario_matches s) (filter (resolves s) (cartographie_sr_ov s))
     (fold (generate_step s) (cartographie_sr_ov s) []) \<and>
   mset (fst (generate_scenarios_strategiques s)) =
     mset (fold (generate_step s) (cartographie_sr_ov s) []) \<and>
   length (fst (generate_scenarios_strategiques s)) =
     length (filter (resolves s) (cartographie_sr_ov s)) \<and>
   sorted_wrt (\<lambda>a b. gravite_ss a \<ge> gravite_ss b) (fst (generate_scenarios_strategiques s)) \<and>
   (\<forall>g. filter (\<lambda>sc. gravite_ss sc = g) (fst (generate_scenarios_strategiques s)) =
        filter (\<lambda>sc. gravite_ss sc = g) (fold (generate_step s) (cartographie_sr_ov s) [])) \<and>
   snd (generate_scenarios_strategiques s) =
     s\<lparr>scenarios_strategiques := fst (generate_scenarios_strategiques s)\<rparr> \<and>
   fst (generate_scenarios_strategiques (s\<lparr>scenarios_strategiques := previous\<rparr>)) =
     fst (generate_scenarios_strategiques s)"
proof -
  obtain ys where ys: "fold (generate_step s) (cartographie_sr_ov s) [] = ys"
      "list_all2 (scenario_matches s) (filter (resolves s) (cartographie_sr_ov s)) ys"
    using fold_generate_step [of s "cartographie_sr_ov s" "[]"] by auto
  have len: "length ys = length (filter (resolves s) (cartographie_sr_ov s))"
    using ys(2) by (simp add: list_all2_lengthD)
  have fst_eq: "fst (generate_scenarios_strategiques s) = py_sort_reverse gravite_ss ys"
    by (simp add: generate_scenarios_strategiques_def Let_def ys(1))
  have step_eq: "generate_step (s\<lparr>scenarios_strategiques := previous\<rparr>) = generate_step s"
    by (intro ext) (simp add: generate_step_def)
  have prev: "fst (generate_scenarios_strategiques (s\<lparr>scenarios_strategiques := previous\<rparr>)) =
     fst (generate_scenarios_strategiques s)"
    by (simp add: generate_scenarios_strategiques_def Let_def step_eq)
  have snd_eq: "snd (generate_scenarios_strategiques s) =
     s\<lparr>scenarios_strategiques := fst (generate_scenarios_strategiques s)\<rparr>"
    by (simp add: generate_scenarios_strategiques_def Let_def)
  show ?thesis
    unfolding fst_eq ys(1)
    using ys(2) len prev [unfolded fst_eq] snd_eq [unfolded fst_eq]
    by (simp add: py_sort_reverse_length py_sort_reverse_mset py_sort_reverse_stable
        py_sort_reverse_sorted)
qed

section \<open>Workshop5: the status of a risk\<close>

lemma length_update_first [simp]: "length (update_first P f xs) = length xs"
  by (induction xs) auto


lemma map_update_first_same:
  "(\<And>x. k (f x) = k x) \<Longrightarrow> map k (update_first P f xs) = map k xs"
  by (induction xs) auto

lemma state_after_Inl [simp]: "state_after s (Inl e) = s"
  by (simp add: state_after_def)

lemma state_after_Inr [simp]: "state_after s (Inr b) = snd b"
  by (simp add: state_after_def split: prod.splits)














section \<open>Workshop5: links between risks and measures\<close>

lemma find_update_first:
  "(\<And>x. P x \<Longrightarrow> P (f x)) \<Longrightarrow> find P (update_first P f xs) = map_option f (find P xs)"
  by (induction xs) auto

lemma update_first_idem:
  "(\<And>x. P x \<Longrightarrow> P (f x) \<and> f (f x) = f x) \<Longrightarrow>
     update_first P f (update_first P f xs) = update_first P f xs"
  by (induction xs) auto

lemma update_first_distinct:
  "distinct (map k xs) \<Longrightarrow>
     update_first (\<lambda>x. k x = a) f xs = map (\<lambda>x. if k x = a then f x else x) xs"
proof (induction xs)
  case Nil
  then show ?case by simp
next
  case (Cons x xs)
  show ?case
  proof (cases "k x = a")
    case True
    then have "\<forall>y \<in> set xs. k y \<noteq> a"
      using Cons.prems by (force simp: image_iff)
    then have "map (\<lambda>x. if k x = a then f x else x) xs = xs"
      by (simp add: map_idI)
    then show ?thesis
      using True by simp
  next
    case False
    then show ?thesis
      using Cons by simp
  qed
qed

lemma associate_unfold:
  "associate_mesure_to_risque s i m =
     (if find (\<lambda>r. id_r r = i) (risques s) \<noteq> None \<and>
         find (\<lambda>x. id_mt x = m) (mesures_traitement s) \<noteq> None
      then (True, s\<lparr>risques := update_first (\<lambda>r. id_r r = i) (add_mesure_id m) (risques s),
                     mesures_traitement :=
                       update_first (\<lambda>x. id_mt x = m) (add_risque_id i) (mesures_traitement s)\<rparr>)
      else (False, s))"
  by (auto simp: associate_mesure_to_risque_def add_mesure_id_def [abs_def]
      add_risque_id_def [abs_def] split: option.splits)

lemma id_add_mesure_id [simp]: "id_r (add_mesure_id m r) = id_r r"
  by (simp add: add_mesure_id_def)

lemma id_add_risque_id [simp]: "id_mt (add_risque_id i m) = id_mt m"
  by (simp add: add_risque_id_def)

lemma add_mesure_id_idem [simp]: "add_mesure_id m (add_mesure_id m r) = add_mesure_id m r"
  by (simp add: add_mesure_id_def)

lemma add_risque_id_idem [simp]: "add_risque_id i (add_risque_id i m) = add_risque_id i m"
  by (simp add: add_risque_id_def)

lemma set_add_mesure_id [simp]:
  "set (mesures_associees_r (add_mesure_id m r)) = insert m (set (mesures_associees_r r))"
  by (auto simp: add_mesure_id_def)

lemma set_add_risque_id [simp]:
  "set (risques_couverts_mt (add_risque_id i m)) = insert i (set (risques_couverts_mt m))"
  by (auto simp: add_risque_id_def)

lemma associate_idempotent:
  "associate_mesure_to_risque (snd (associate_mesure_to_risque s i m)) i m =
     associate_mesure_to_risque s i m"
  by (simp add: associate_unfold find_update_first update_first_idem)

lemma associate_ids_distinct:
  "ids_distinct s \<Longrightarrow> ids_distinct (snd (associate_mesure_to_risque s i m))"
  by (simp add: associate_unfold ids_distinct_def map_update_first_same)

lemma associate_link_inv:
  assumes "ids_distinct s" "link_inv s"
  shows "link_inv (snd (associate_mesure_to_risque s i m))"
proof (cases "find (\<lambda>r. id_r r = i) (risques s) \<noteq> None \<and>
         find (\<lambda>x. id_mt x = m) (mesures_traitement s) \<noteq> None")
  case False
  then have "associate_mesure_to_risque s i m = (False, s)"
    by (auto simp: associate_unfold)
  then show ?thesis
    using assms(2) by simp
next
  case True
  have r: "update_first (\<lambda>r. id_r r = i) (add_mesure_id m) (risques s) =
           map (\<lambda>r. if id_r r = i then add_mesure_id m r else r) (risques s)"
    using assms(1) by (simp add: ids_distinct_def update_first_distinct)
  have k: "update_first (\<lambda>x. id_mt x = m) (add_risque_id i) (mesures_traitement s) =
           map (\<lambda>x. if id_mt x = m then add_risque_id i x else x) (mesures_traitement s)"
    using assms(1) by (simp add: ids_distinct_def update_first_distinct)
  show ?thesis
    using True assms(2) unfolding associate_unfold link_inv_def r k
    by auto
qed

lemma associate_all_preserves:
  "ids_distinct s \<Longrightarrow> link_inv s \<Longrightarrow>
     ids_distinct (associate_all calls s) \<and> link_inv (associate_all calls s)"
proof (induction calls arbitrary: s)
  case Nil
  then show ?case by (simp add: associate_all_def)
next
  case (Cons c calls)
  have "ids_distinct (snd (associate_mesure_to_risque s (fst c) (snd c)))"
    and "link_inv (snd (associate_mesure_to_risque s (fst c) (snd c)))"
    using Cons.prems associate_ids_distinct associate_link_inv by blast+
  then show ?case
    using Cons.IH by (simp add: associate_all_def)
qed

section \<open>Workshop5: the residual risk\<close>








text \<open>The two branches of \<open>calculate_risque_residuel\<close> for a risk that is found.\<close>

lemma calculate_no_mesure:
  assumes "find (\<lambda>r. id_r r = i) (risques s) = Some r" "mesures_du_risque s r = []"
  shows "calculate_risque_residuel s i =
           Inr (\<lparr>risque_id_rr = i, score_brut_rr = score_brut_r r,
                 score_residuel_rr = score_brut_r r, niveau_residuel_rr = niveau_brut_r r,
                 reduction_rr = 0, reduction_pct_rr = None, mesures_appliquees_rr = []\<rparr>,
                s\<lparr>risques_residuels := residuels_kept s i @
                  [\<lparr>risque_id_rr = i, score_brut_rr = score_brut_r r,
                    score_residuel_rr = score_brut_r r, niveau_residuel_rr = niveau_brut_r r,
                    reduction_rr = 0, reduction_pct_rr = None, mesures_appliquees_rr = []\<rparr>]\<rparr>)"
  using assms
  by (simp add: calculate_risque_residuel_def residuels_kept_def mesures_du_risque_def Let_def)

lemma calculate_with_mesures:
  assumes "find (\<lambda>r. id_r r = i) (risques s) = Some r" "mesures_du_risque s r \<noteq> []"
    "score_brut_r r \<noteq> 0"
  shows "calculate_risque_residuel s i =
           Inr (residuel_avec_mesures s i r,
                s\<lparr>risques_residuels := residuels_kept s i @ [residuel_avec_mesures s i r]\<rparr>)"
  using assms
  by (simp add: calculate_risque_residuel_def residuels_kept_def mesures_du_risque_def
      efficacite_combinee_def residuel_avec_mesures_def Let_def)

lemma calculate_result:
  assumes "calculate_risque_residuel s i = Inr (v, s')"
  shows "risque_id_rr v = i \<and> s' = s\<lparr>risques_residuels := residuels_kept s i @ [v]\<rparr>"
proof (cases "find (\<lambda>r. id_r r = i) (risques s)")
  case None
  then show ?thesis
    using assms by (simp add: calculate_risque_residuel_def)
next
  case (Some r)
  show ?thesis
  proof (cases "mesures_du_risque s r = []")
    case True
    then show ?thesis
      using assms calculate_no_mesure [OF Some True] by auto
  next
    case False
    show ?thesis
    proof (cases "score_brut_r r = 0")
      case True
      then have "calculate_risque_residuel s i = Inl ZeroDivisionError"
        using Some False
        by (simp add: calculate_risque_residuel_def mesures_du_risque_def Let_def)
      then show ?thesis
        using assms by simp
    next
      case nz: False
      show ?thesis
        using assms calculate_with_mesures [OF Some False nz]
        by (auto simp: residuel_avec_mesures_def)
    qed
  qed
qed

lemma accept_result:
  assumes "accept_risque s i a j = Inr (v, s')"
  shows "\<exists>res acc. risque_id_rr res = i \<and>
           s' = s\<lparr>risques_residuels := residuels_kept s i @ [res],
                   risques_acceptes := acc,
                   risques := update_first (\<lambda>r. id_r r = i) (\<lambda>r. r\<lparr>statut_r := Accepte\<rparr>)
                                (risques s)\<rparr>"
proof (cases "find (\<lambda>r. id_r r = i) (risques s)")
  case None
  then show ?thesis
    using assms by (simp add: accept_risque_def)
next
  case (Some r)
  show ?thesis
  proof (cases "calculate_risque_residuel s i")
    case (Inl e)
    then show ?thesis
      using assms Some by (simp add: accept_risque_def)
  next
    case (Inr b)
    obtain res s1 where b: "b = (res, s1)"
      by (cases b)
    have c: "risque_id_rr res = i" "s1 = s\<lparr>risques_residuels := residuels_kept s i @ [res]\<rparr>"
      using calculate_result [of s i res s1] Inr b by simp_all
    have "s' = s\<lparr>risques_residuels := residuels_kept s i @ [res],
                  risques_acceptes := risques_acceptes s @
                    [\<lparr>risque_id_ac = i, nom_risque_ac = nom_r r,
                      score_residuel_ac = score_residuel_rr res,
                      niveau_residuel_ac = niveau_residuel_rr res,
                      acceptant_ac = a, justification_ac = j,
                      jours_avant_revue_ac = calculate_review_date (score_residuel_rr res),
                      conditions_ac = []\<rparr>],
                  risques := update_first (\<lambda>r. id_r r = i) (\<lambda>r. r\<lparr>statut_r := Accepte\<rparr>)
                                (risques s)\<rparr>"
      using assms Some Inr b c(2) by (auto simp: accept_risque_def Let_def)
    then show ?thesis
      using c(1) by blast
  qed
qed
















section \<open>Workshop4: the likelihood of a scenario\<close>

lemma vraisemblance_calculee_eq:
  "vraisemblance_calculee s sc =
     (if actions_du_scenario s sc = [] then 0 else py_round (moyenne_vraisemblance s sc))"
  by (simp add: vraisemblance_calculee_def actions_du_scenario_def moyenne_vraisemblance_def Let_def)

lemma calculate_vraisemblance_scenario_found:
  assumes "find (\<lambda>x. id_so x = sid) (scenarios_operationnels s) = Some sc"
  shows "calculate_vraisemblance_scenario s sid =
           (if actions_du_scenario s sc = [] then (0, s)
            else (py_round (moyenne_vraisemblance s sc),
                  s\<lparr>scenarios_operationnels :=
                      update_first (\<lambda>x. id_so x = sid)
                        (\<lambda>x. x\<lparr>vraisemblance_so := py_round (moyenne_vraisemblance s sc)\<rparr>)
                        (scenarios_operationnels s)\<rparr>))"
  using assms
  by (simp add: calculate_vraisemblance_scenario_def actions_du_scenario_def
      moyenne_vraisemblance_def Let_def)

lemma calculate_vraisemblance_scenario_ids:
  "map id_so (scenarios_operationnels (snd (calculate_vraisemblance_scenario s sid))) =
     map id_so (scenarios_operationnels s)"
proof (cases "find (\<lambda>x. id_so x = sid) (scenarios_operationnels s)")
  case None
  then show ?thesis
    by (simp add: calculate_vraisemblance_scenario_def)
next
  case (Some sc)
  show ?thesis
    unfolding calculate_vraisemblance_scenario_found [OF Some]
    by (simp add: map_update_first_same)
qed

lemma calculate_vraisemblance_scenario_rest:
  "actions_elementaires (snd (calculate_vraisemblance_scenario s sid)) = actions_elementaires s \<and>
   mesures_existantes (snd (calculate_vraisemblance_scenario s sid)) = mesures_existantes s \<and>
   synthese_risques (snd (calculate_vraisemblance_scenario s sid)) = synthese_risques s"
proof (cases "find (\<lambda>x. id_so x = sid) (scenarios_operationnels s)")
  case None
  then show ?thesis
    by (simp add: calculate_vraisemblance_scenario_def)
next
  case (Some sc)
  show ?thesis
    unfolding calculate_vraisemblance_scenario_found [OF Some]
    by simp
qed

lemma find_distinct_nth:
  assumes "distinct (map k xs)" "i < length xs"
  shows "find (\<lambda>x. k x = k (xs ! i)) xs = Some (xs ! i)"
  using assms
proof (induction xs arbitrary: i)
  case Nil
  then show ?case by simp
next
  case (Cons x xs)
  show ?case
  proof (cases i)
    case 0
    then show ?thesis by simp
  next
    case (Suc j)
    then have j: "j < length xs"
      using Cons.prems(2) by simp
    then have "xs ! j \<in> set xs"
      by simp
    then have "k x \<noteq> k (xs ! j)"
      using Cons.prems(1) by (force simp: image_iff)
    then show ?thesis
      using Suc Cons.IH [OF _ j] Cons.prems(1) by simp
  qed
qed

lemma update_first_distinct_nth:
  assumes "distinct (map k xs)" "i < length xs"
  shows "update_first (\<lambda>x. k x = k (xs ! i)) f xs = xs[i := f (xs ! i)]"
  using assms
proof (induction xs arbitrary: i)
  case Nil
  then show ?case by simp
next
  case (Cons x xs)
  show ?case
  proof (cases i)
    case 0
    then show ?thesis by simp
  next
    case (Suc j)
    then have j: "j < length xs"
      using Cons.prems(2) by simp
    then have "xs ! j \<in> set xs"
      by simp
    then have "k x \<noteq> k (xs ! j)"
      using Cons.prems(1) by (force simp: image_iff)
    then show ?thesis
      using Suc Cons.IH [OF _ j] Cons.prems(1) by simp
  qed
qed

lemma lazy_vraisemblance_id [simp]: "id_so (lazy_vraisemblance s sc) = id_so sc"
  by (simp add: lazy_vraisemblance_def)

lemma actions_du_scenario_cong:
  "actions_elementaires t = actions_elementaires s \<Longrightarrow>
     actions_du_scenario t sc = actions_du_scenario s sc"
  by (simp add: actions_du_scenario_def)

lemma moyenne_vraisemblance_cong:
  "actions_elementaires t = actions_elementaires s \<Longrightarrow>
     moyenne_vraisemblance t sc = moyenne_vraisemblance s sc"
  by (simp add: moyenne_vraisemblance_def actions_du_scenario_def)

lemma synthetize_step_fields:
  "scenarios_operationnels (synthetize_step g k t) =
     scenarios_operationnels
       (if vraisemblance_so (scenarios_operationnels t ! k) = 0
        then snd (calculate_vraisemblance_scenario t (id_so (scenarios_operationnels t ! k)))
        else t) \<and>
   actions_elementaires (synthetize_step g k t) = actions_elementaires t \<and>
   mesures_existantes (synthetize_step g k t) = mesures_existantes t"
  using calculate_vraisemblance_scenario_rest [of t "id_so (scenarios_operationnels t ! k)"]
  by (simp add: synthetize_step_def Let_def)

lemma synthetize_step_scenarios:
  assumes d: "distinct (map id_so (scenarios_operationnels t))"
    and k: "k < length (scenarios_operationnels t)"
    and act: "actions_elementaires t = actions_elementaires s"
  shows "scenarios_operationnels (synthetize_step g k t) =
           (scenarios_operationnels t)[k := lazy_vraisemblance s (scenarios_operationnels t ! k)]"
proof -
  let ?xs = "scenarios_operationnels t"
  let ?sc = "?xs ! k"
  show ?thesis
  proof (cases "vraisemblance_so ?sc = 0")
    case False
    then have "scenarios_operationnels (synthetize_step g k t) = ?xs"
      using synthetize_step_fields [of g k t] by simp
    moreover have "lazy_vraisemblance s ?sc = ?sc"
      using False by (simp add: lazy_vraisemblance_def)
    ultimately show ?thesis
      by simp
  next
    case True
    have f: "find (\<lambda>x. id_so x = id_so ?sc) ?xs = Some ?sc"
      by (rule find_distinct_nth [OF d k])
    have sc: "scenarios_operationnels (synthetize_step g k t) =
            scenarios_operationnels (snd (calculate_vraisemblance_scenario t (id_so ?sc)))"
      using True synthetize_step_fields [of g k t] by simp
    show ?thesis
    proof (cases "actions_du_scenario t ?sc = []")
      case e: True
      then have "vraisemblance_calculee s ?sc = 0"
        using actions_du_scenario_cong [OF act, of ?sc] by (simp add: vraisemblance_calculee_eq)
      then have "lazy_vraisemblance s ?sc = ?sc"
        using True by (simp add: lazy_vraisemblance_def)
      moreover have "scenarios_operationnels (synthetize_step g k t) = ?xs"
        using sc e by (simp add: calculate_vraisemblance_scenario_found [OF f])
      ultimately show ?thesis
        by simp
    next
      case ne: False
      have "vraisemblance_calculee s ?sc = py_round (moyenne_vraisemblance t ?sc)"
        using ne actions_du_scenario_cong [OF act, of ?sc] moyenne_vraisemblance_cong [OF act, of ?sc]
        by (simp add: vraisemblance_calculee_eq)
      then have l: "lazy_vraisemblance s ?sc =
                    ?sc\<lparr>vraisemblance_so := py_round (moyenne_vraisemblance t ?sc)\<rparr>"
        using True by (simp add: lazy_vraisemblance_def)
      have "scenarios_operationnels (synthetize_step g k t) =
              update_first (\<lambda>x. id_so x = id_so ?sc)
                (\<lambda>x. x\<lparr>vraisemblance_so := py_round (moyenne_vraisemblance t ?sc)\<rparr>) ?xs"
        using sc ne by (simp add: calculate_vraisemblance_scenario_found [OF f])
      also have "\<dots> = ?xs[k := ?sc\<lparr>vraisemblance_so := py_round (moyenne_vraisemblance t ?sc)\<rparr>]"
        by (rule update_first_distinct_nth [OF d k])
      finally show ?thesis
        using l by simp
    qed
  qed
qed

lemma synthetize_fold:
  assumes d: "distinct (map id_so (scenarios_operationnels s))"
    and k: "k \<le> length (scenarios_operationnels s)"
  shows "scenarios_operationnels (fold (synthetize_step g) [0 ..< k] (s\<lparr>synthese_risques := []\<rparr>)) =
           map (lazy_vraisemblance s) (take k (scenarios_operationnels s)) @
             drop k (scenarios_operationnels s) \<and>
         actions_elementaires (fold (synthetize_step g) [0 ..< k] (s\<lparr>synthese_risques := []\<rparr>)) =
           actions_elementaires s \<and>
         mesures_existantes (fold (synthetize_step g) [0 ..< k] (s\<lparr>synthese_risques := []\<rparr>)) =
           mesures_existantes s"
  using k
proof (induction k)
  case 0
  then show ?case by simp
next
  case (Suc k)
  let ?scs = "scenarios_operationnels s"
  let ?t = "fold (synthetize_step g) [0 ..< k] (s\<lparr>synthese_risques := []\<rparr>)"
  have kl: "k < length ?scs"
    using Suc.prems by simp
  have ih: "scenarios_operationnels ?t = map (lazy_vraisemblance s) (take k ?scs) @ drop k ?scs"
    "actions_elementaires ?t = actions_elementaires s"
    "mesures_existantes ?t = mesures_existantes s"
    using Suc.IH kl by simp_all
  have ids: "map id_so (scenarios_operationnels ?t) = map id_so ?scs"
  proof -
    have "map id_so (scenarios_operationnels ?t) = map id_so (take k ?scs) @ map id_so (drop k ?scs)"
      unfolding ih(1) by simp
    also have "\<dots> = map id_so (take k ?scs @ drop k ?scs)"
      by (simp only: map_append)
    also have "\<dots> = map id_so ?scs"
      by (simp only: append_take_drop_id)
    finally show ?thesis .
  qed
  have dt: "distinct (map id_so (scenarios_operationnels ?t))"
    using d ids by simp
  have lt: "k < length (scenarios_operationnels ?t)"
    using kl ih(1) by simp
  have nth: "scenarios_operationnels ?t ! k = ?scs ! k"
    using kl unfolding ih(1) by (simp add: nth_append)
  have split: "scenarios_operationnels ?t =
                 map (lazy_vraisemblance s) (take k ?scs) @ (?scs ! k) # drop (Suc k) ?scs"
    unfolding ih(1) using kl by (simp add: Cons_nth_drop_Suc)
  have lk: "length (map (lazy_vraisemblance s) (take k ?scs)) = k"
    using kl by simp
  have upd: "(scenarios_operationnels ?t)[k := lazy_vraisemblance s (?scs ! k)] =
               map (lazy_vraisemblance s) (take k ?scs) @
                 lazy_vraisemblance s (?scs ! k) # drop (Suc k) ?scs"
    unfolding split using lk by (metis list_update_length)
  have step: "scenarios_operationnels (synthetize_step g k ?t) =
                map (lazy_vraisemblance s) (take (Suc k) ?scs) @ drop (Suc k) ?scs"
    using synthetize_step_scenarios [OF dt lt ih(2), of g] nth upd kl
    by (simp add: take_Suc_conv_app_nth)
  have f: "fold (synthetize_step g) [0 ..< Suc k] (s\<lparr>synthese_risques := []\<rparr>) =
             synthetize_step g k ?t"
    by simp
  show ?case
    unfolding f using step synthetize_step_fields [of g k ?t] ih(2,3) by simp
qed

lemma synthetize_risks_scenarios:
  assumes "distinct (map id_so (scenarios_operationnels s))"
  shows "scenarios_operationnels (snd (synthetize_risks s g)) =
           map (lazy_vraisemblance s) (scenarios_operationnels s) \<and>
         actions_elementaires (snd (synthetize_risks s g)) = actions_elementaires s \<and>
         mesures_existantes (snd (synthetize_risks s g)) = mesures_existantes s"
  using synthetize_fold [OF assms, of "length (scenarios_operationnels s)" g]
  by (simp add: synthetize_risks_def Let_def)

lemma so_ids_sequential_distinct:
  assumes "so_ids_sequential s"
  shows "distinct (map id_so (scenarios_operationnels s))"
proof -
  have "inj_on (\<lambda>k. ''SO'' @ string_of_nat (Suc k)) (set [0 ..< length (scenarios_operationnels s)])"
    by (rule inj_onI) (auto dest: string_of_nat_inj)
  then have "distinct (map (\<lambda>k. ''SO'' @ string_of_nat (Suc k))
                         [0 ..< length (scenarios_operationnels s)])"
    by (simp add: distinct_map)
  then show ?thesis
    using assms by (simp add: so_ids_sequential_def)
qed

lemma so_ids_sequential_same:
  assumes "so_ids_sequential s"
    "map id_so (scenarios_operationnels t) = map id_so (scenarios_operationnels s)"
  shows "so_ids_sequential t"
proof -
  have "length (scenarios_operationnels t) = length (scenarios_operationnels s)"
    using assms(2) by (rule map_eq_imp_length_eq)
  then show ?thesis
    using assms by (simp add: so_ids_sequential_def)
qed

lemma so_ids_sequential_exec:
  assumes "so_ids_sequential s"
  shows "so_ids_sequential (w4_exec op s)"
proof (cases op)
  case (AddScenarioOperationnel r n d a)
  then show ?thesis
    using assms by (simp add: add_scenario_operationnel_def Let_def so_ids_sequential_def)
next
  case (AddActionElementaire n t d e)
  then show ?thesis
    using assms by (simp add: add_action_elementaire_def Let_def so_ids_sequential_def)
next
  case (AddMesureExistante n t e c)
  then show ?thesis
    using assms by (simp add: add_mesure_existante_def Let_def so_ids_sequential_def)
next
  case (CalculateVraisemblanceScenario i)
  then show ?thesis
    using so_ids_sequential_same [OF assms calculate_vraisemblance_scenario_ids [of s i]] by simp
next
  case (SynthetizeRisks g)
  have "map id_so (scenarios_operationnels (snd (synthetize_risks s g))) =
        map id_so (scenarios_operationnels s)"
    using synthetize_risks_scenarios [OF so_ids_sequential_distinct [OF assms], of g]
    by (simp add: comp_def)
  then show ?thesis
    using so_ids_sequential_same [OF assms] SynthetizeRisks by simp
qed

lemma so_ids_sequential_fold: "so_ids_sequential s \<Longrightarrow> so_ids_sequential (fold w4_exec ops s)"
  by (induction ops arbitrary: s) (simp_all add: so_ids_sequential_exec)

lemma so_ids_sequential_run: "so_ids_sequential (w4_run ops)"
proof -
  have "so_ids_sequential W4_init"
    by (simp add: so_ids_sequential_def W4_init_def)
  then show ?thesis
    unfolding w4_run_def by (rule so_ids_sequential_fold)
qed

text \<open>
  C8. For a scenario found by its ID that references at least one existing action,
  \<open>calculate_vraisemblance_scenario\<close> returns the mean of the likelihoods of those
  actions rounded to a nearest integer (Python's \<open>round\<close>, at most one half away from
  the mean) and stores that value in the likelihood field of the scenario. In every state
  reached from the empty assessment, \<open>synthetize_risks\<close> leaves each scenario as it was
  except for its likelihood: a stored likelihood of 0 is replaced by the computed value,
  a stored likelihood other than 0 is kept.
\<close>

theorem scenario_vraisemblance:
  "(find (\<lambda>x. id_so x = scenario_id) (scenarios_operationnels s) = Some sc \<and>
    actions_du_scenario s sc \<noteq> [] \<longrightarrow>
      fst (calculate_vraisemblance_scenario s scenario_id) =
        py_round (moyenne_vraisemblance s sc) \<and>
      \<bar>of_int (fst (calculate_vraisemblance_scenario s scenario_id)) - moyenne_vraisemblance s sc\<bar>
        \<le> 1 / 2 \<and>
      scenarios_operationnels (snd (calculate_vraisemblance_scenario s scenario_id)) =
        update_first (\<lambda>x. id_so x = scenario_id)
          (\<lambda>x. x\<lparr>vraisemblance_so := py_round (moyenne_vraisemblance s sc)\<rparr>)
          (scenarios_operationnels s) \<and>
      find (\<lambda>x. id_so x = scenario_id)
          (scenarios_operationnels (snd (calculate_vraisemblance_scenario s scenario_id))) =
        Some (sc\<lparr>vraisemblance_so := py_round (moyenne_vraisemblance s sc)\<rparr>)) \<and>
   scenarios_operationnels (snd (synthetize_risks (w4_run ops) gravite_base)) =
     map (\<lambda>x. if vraisemblance_so x = 0
               then x\<lparr>vraisemblance_so := vraisemblance_calculee (w4_run ops) x\<rparr>
               else x)
       (scenarios_operationnels (w4_run ops))"
proof (intro conjI impI)
  assume a: "find (\<lambda>x. id_so x = scenario_id) (scenarios_operationnels s) = Some sc \<and>
    actions_du_scenario s sc \<noteq> []"
  then have f: "find (\<lambda>x. id_so x = scenario_id) (scenarios_operationnels s) = Some sc"
    and ne: "actions_du_scenario s sc \<noteq> []"
    by simp_all
  have c: "calculate_vraisemblance_scenario s scenario_id =
          (py_round (moyenne_vraisemblance s sc),
           s\<lparr>scenarios_operationnels :=
                update_first (\<lambda>x. id_so x = scenario_id)
                  (\<lambda>x. x\<lparr>vraisemblance_so := py_round (moyenne_vraisemblance s sc)\<rparr>)
                  (scenarios_operationnels s)\<rparr>)"
    using ne by (simp add: calculate_vraisemblance_scenario_found [OF f])
  show "fst (calculate_vraisemblance_scenario s scenario_id) =
        py_round (moyenne_vraisemblance s sc)"
    by (simp add: c)
  show "\<bar>of_int (fst (calculate_vraisemblance_scenario s scenario_id)) - moyenne_vraisemblance s sc\<bar>
        \<le> 1 / 2"
    using py_round_nearest [of "moyenne_vraisemblance s sc"] by (simp add: c)
  show "scenarios_operationnels (snd (calculate_vraisemblance_scenario s scenario_id)) =
        update_first (\<lambda>x. id_so x = scenario_id)
          (\<lambda>x. x\<lparr>vraisemblance_so := py_round (moyenne_vraisemblance s sc)\<rparr>)
          (scenarios_operationnels s)"
    by (simp add: c)
  show "find (\<lambda>x. id_so x = scenario_id)
          (scenarios_operationnels (snd (calculate_vraisemblance_scenario s scenario_id))) =
        Some (sc\<lparr>vraisemblance_so := py_round (moyenne_vraisemblance s sc)\<rparr>)"
    using f by (simp add: c find_update_first)
next
  have "distinct (map id_so (scenarios_operationnels (w4_run ops)))"
    by (rule so_ids_sequential_distinct [OF so_ids_sequential_run])
  then show "scenarios_operationnels (snd (synthetize_risks (w4_run ops) gravite_base)) =
     map (\<lambda>x. if vraisemblance_so x = 0
               then x\<lparr>vraisemblance_so := vraisemblance_calculee (w4_run ops) x\<rparr>
               else x)
       (scenarios_operationnels (w4_run ops))"
    using synthetize_risks_scenarios [of "w4_run ops" gravite_base]
    by (simp add: lazy_vraisemblance_def [abs_def])
qed

theorem scenario_vraisemblance_witness:
  "find (\<lambda>x. id_so x = ''SO1'') (scenarios_operationnels (w4_run ops_deux_actions)) =
     Some scenario_SO1 \<and>
   actions_du_scenario (w4_run ops_deux_actions) scenario_SO1 \<noteq> [] \<and>
   moyenne_vraisemblance (w4_run ops_deux_actions) scenario_SO1 = 5 / 2 \<and>
   fst (calculate_vraisemblance_scenario (w4_run ops_deux_actions) ''SO1'') = 2 \<and>
   find (\<lambda>x. id_so x = ''SO1'')
       (scenarios_operationnels
          (snd (calculate_vraisemblance_scenario (w4_run ops_deux_actions) ''SO1''))) =
     Some (scenario_SO1\<lparr>vraisemblance_so := 2\<rparr>) \<and>
   map vraisemblance_so
       (scenarios_operationnels (snd (synthetize_risks (w4_run ops_deux_actions) 3))) = [2]"
proof -
  have h: "find (\<lambda>x. id_so x = ''SO1'') (scenarios_operationnels (w4_run ops_deux_actions)) =
     Some scenario_SO1"
    by code_simp
  have ne: "actions_du_scenario (w4_run ops_deux_actions) scenario_SO1 \<noteq> []"
    by code_simp
  have m: "moyenne_vraisemblance (w4_run ops_deux_actions) scenario_SO1 = 5 / 2"
    by code_simp
  have p: "py_round (5 / 2) = 2"
    by code_simp
  have l: "map vraisemblance_so
     (map (\<lambda>x. if vraisemblance_so x = 0
               then x\<lparr>vraisemblance_so := vraisemblance_calculee (w4_run ops_deux_actions) x\<rparr>
               else x)
       (scenarios_operationnels (w4_run ops_deux_actions))) = [2]"
    by code_simp
  note t = scenario_vraisemblance [of "''SO1''" "w4_run ops_deux_actions" scenario_SO1
        ops_deux_actions 3]
  have c1: "fst (calculate_vraisemblance_scenario (w4_run ops_deux_actions) ''SO1'') =
        py_round (moyenne_vraisemblance (w4_run ops_deux_actions) scenario_SO1)"
    using t h ne by blast
  have c2: "find (\<lambda>x. id_so x = ''SO1'')
       (scenarios_operationnels
          (snd (calculate_vraisemblance_scenario (w4_run ops_deux_actions) ''SO1''))) =
     Some (scenario_SO1\<lparr>vraisemblance_so :=
             py_round (moyenne_vraisemblance (w4_run ops_deux_actions) scenario_SO1)\<rparr>)"
    using t h ne by blast
  have c3: "scenarios_operationnels (snd (synthetize_risks (w4_run ops_deux_actions) 3)) =
     map (\<lambda>x. if vraisemblance_so x = 0
               then x\<lparr>vraisemblance_so := vraisemblance_calculee (w4_run ops_deux_actions) x\<rparr>
               else x)
       (scenarios_operationnels (w4_run ops_deux_actions))"
    using t by blast
  have r: "py_round (moyenne_vraisemblance (w4_run ops_deux_actions) scenario_SO1) = 2"
    unfolding m by (rule p)
  show ?thesis
    unfolding c3 l
    using h ne m c1 [unfolded r] c2 [unfolded r] by blast
qed

section \<open>Workshop5: links in the states the operations reach\<close>

lemma mt_ids_sequential_distinct:
  assumes "mt_ids_sequential s"
  shows "distinct (map id_mt (mesures_traitement s))"
proof -
  have "inj_on (\<lambda>k. ''M'' @ string_of_nat (Suc k)) (set [0 ..< length (mesures_traitement s)])"
    by (rule inj_onI) (auto dest: string_of_nat_inj)
  then have "distinct (map (\<lambda>k. ''M'' @ string_of_nat (Suc k))
                         [0 ..< length (mesures_traitement s)])"
    by (simp add: distinct_map)
  then show ?thesis
    using assms by (simp add: mt_ids_sequential_def)
qed

lemma mt_ids_sequential_same:
  assumes "mt_ids_sequential s"
    "map id_mt (mesures_traitement t) = map id_mt (mesures_traitement s)"
  shows "mt_ids_sequential t"
proof -
  have "length (mesures_traitement t) = length (mesures_traitement s)"
    using assms(2) by (rule map_eq_imp_length_eq)
  then show ?thesis
    using assms by (simp add: mt_ids_sequential_def)
qed

lemma mt_ids_sequential_exec:
  assumes "mt_ids_sequential s"
  shows "mt_ids_sequential (w5_exec op s)"
proof (cases op)
  case (AddRisque i n g v r)
  have "mesures_traitement (w5_exec op s) = mesures_traitement s"
    using AddRisque by (auto simp: add_risque_def Let_def split: sum.splits)
  then show ?thesis
    using mt_ids_sequential_same [OF assms] by simp
next
  case (DefineTraitement i opt j)
  have "mesures_traitement (w5_exec op s) = mesures_traitement s"
    using DefineTraitement by (auto simp: define_traitement_def Let_def split: option.splits)
  then show ?thesis
    using mt_ids_sequential_same [OF assms] by simp
next
  case (AddMesureTraitement n t d c e dl r)
  then show ?thesis
    using assms by (auto simp: add_mesure_traitement_def Let_def mt_ids_sequential_def)
next
  case (AssociateMesure i m)
  have "map id_mt (mesures_traitement (w5_exec op s)) = map id_mt (mesures_traitement s)"
    using AssociateMesure by (simp add: associate_unfold map_update_first_same)
  then show ?thesis
    using mt_ids_sequential_same [OF assms] by simp
next
  case (CalculateRisqueResiduel i)
  have "mesures_traitement (w5_exec op s) = mesures_traitement s"
  proof (cases "calculate_risque_residuel s i")
    case (Inl e)
    then show ?thesis using CalculateRisqueResiduel by simp
  next
    case (Inr b)
    then show ?thesis
      using CalculateRisqueResiduel calculate_result [of s i "fst b" "snd b"] by simp
  qed
  then show ?thesis
    using mt_ids_sequential_same [OF assms] by simp
next
  case (AcceptRisque i a j)
  have "mesures_traitement (w5_exec op s) = mesures_traitement s"
  proof (cases "accept_risque s i a j")
    case (Inl e)
    then show ?thesis using AcceptRisque by simp
  next
    case (Inr b)
    then show ?thesis
      using AcceptRisque accept_result [of s i a j "fst b" "snd b"] by auto
  qed
  then show ?thesis
    using mt_ids_sequential_same [OF assms] by simp
qed

lemma mt_ids_sequential_fold: "mt_ids_sequential s \<Longrightarrow> mt_ids_sequential (fold w5_exec ops s)"
  by (induction ops arbitrary: s) (simp_all add: mt_ids_sequential_exec)

lemma mesure_ids_distinct_run: "distinct (map id_mt (mesures_traitement (w5_run ops)))"
proof -
  have "mt_ids_sequential W5_init"
    by (simp add: mt_ids_sequential_def W5_init_def)
  then have "mt_ids_sequential (w5_run ops)"
    unfolding w5_run_def by (rule mt_ids_sequential_fold)
  then show ?thesis
    by (rule mt_ids_sequential_distinct)
qed

text \<open>
  C10, as the code has it. With an unknown risk ID or an unknown measure ID,
  \<open>associate_mesure_to_risque\<close> returns False and the state it was given. With both
  known it returns True and appends each ID to the other's list unless it is already
  there. A second identical call returns the same flag and the same state. On a state
  whose risk IDs are pairwise distinct and whose measure IDs are pairwise distinct,
  every sequence of such calls preserves distinctness and the invariant that a measure's
  ID is in a risk's \<open>mesures_associees\<close> exactly when the risk's ID is in the measure's
  \<open>risques_couverts\<close>. In a state reached from the empty assessment the measure IDs
  M1, M2, ... are always distinct, so there distinct risk IDs are enough.
\<close>

theorem associate_mesure_to_risque_links:
  "((risque_id \<notin> id_r ` set (risques s) \<or> mesure_id \<notin> id_mt ` set (mesures_traitement s)) \<longrightarrow>
      associate_mesure_to_risque s risque_id mesure_id = (False, s)) \<and>
   (risque_id \<in> id_r ` set (risques s) \<and> mesure_id \<in> id_mt ` set (mesures_traitement s) \<longrightarrow>
      associate_mesure_to_risque s risque_id mesure_id =
        (True, s\<lparr>risques :=
                    update_first (\<lambda>r. id_r r = risque_id) (add_mesure_id mesure_id) (risques s),
                  mesures_traitement :=
                    update_first (\<lambda>x. id_mt x = mesure_id) (add_risque_id risque_id)
                      (mesures_traitement s)\<rparr>)) \<and>
   associate_mesure_to_risque (snd (associate_mesure_to_risque s risque_id mesure_id))
       risque_id mesure_id =
     associate_mesure_to_risque s risque_id mesure_id \<and>
   (ids_distinct s \<and> link_inv s \<longrightarrow>
      ids_distinct (associate_all calls s) \<and> link_inv (associate_all calls s)) \<and>
   (distinct (map id_r (risques (w5_run ops))) \<and> link_inv (w5_run ops) \<longrightarrow>
      link_inv (associate_all calls (w5_run ops)))"
proof (intro conjI impI)
  assume "risque_id \<notin> id_r ` set (risques s) \<or> mesure_id \<notin> id_mt ` set (mesures_traitement s)"
  then have "find (\<lambda>r. id_r r = risque_id) (risques s) = None \<or>
             find (\<lambda>x. id_mt x = mesure_id) (mesures_traitement s) = None"
  proof
    assume "risque_id \<notin> id_r ` set (risques s)"
    then show ?thesis by (simp add: find_None_absent)
  next
    assume "mesure_id \<notin> id_mt ` set (mesures_traitement s)"
    then show ?thesis by (simp add: find_None_absent)
  qed
  then show "associate_mesure_to_risque s risque_id mesure_id = (False, s)"
    by (auto simp: associate_unfold)
next
  assume a: "risque_id \<in> id_r ` set (risques s) \<and> mesure_id \<in> id_mt ` set (mesures_traitement s)"
  obtain r where r: "find (\<lambda>r. id_r r = risque_id) (risques s) = Some r"
    using a find_Some_present [of risque_id id_r "risques s"] by blast
  obtain m where m: "find (\<lambda>x. id_mt x = mesure_id) (mesures_traitement s) = Some m"
    using a find_Some_present [of mesure_id id_mt "mesures_traitement s"] by blast
  show "associate_mesure_to_risque s risque_id mesure_id =
        (True, s\<lparr>risques :=
                    update_first (\<lambda>r. id_r r = risque_id) (add_mesure_id mesure_id) (risques s),
                  mesures_traitement :=
                    update_first (\<lambda>x. id_mt x = mesure_id) (add_risque_id risque_id)
                      (mesures_traitement s)\<rparr>)"
    by (simp add: associate_unfold r m)
next
  show "associate_mesure_to_risque (snd (associate_mesure_to_risque s risque_id mesure_id))
       risque_id mesure_id =
     associate_mesure_to_risque s risque_id mesure_id"
    by (rule associate_idempotent)
next
  assume "ids_distinct s \<and> link_inv s"
  then show "ids_distinct (associate_all calls s)" and "link_inv (associate_all calls s)"
    using associate_all_preserves by blast+
next
  assume a: "distinct (map id_r (risques (w5_run ops))) \<and> link_inv (w5_run ops)"
  then have "ids_distinct (w5_run ops)"
    using mesure_ids_distinct_run [of ops] by (simp add: ids_distinct_def)
  then show "link_inv (associate_all calls (w5_run ops))"
    using a associate_all_preserves by blast
qed

theorem associate_mesure_to_risque_links_witness:
  "associate_mesure_to_risque W5_lie ''R9'' ''M1'' = (False, W5_lie) \<and>
   fst (associate_mesure_to_risque W5_lie ''R1'' ''M1'') = True \<and>
   ids_distinct W5_lie \<and> link_inv W5_lie \<and>
   link_inv (associate_all [(''R1'', ''M1''), (''R1'', ''M1''), (''R2'', ''M1'')] W5_lie) \<and>
   distinct (map id_r (risques (w5_run ops_lie))) \<and> link_inv (w5_run ops_lie) \<and>
   link_inv (associate_all [(''R2'', ''M1''), (''R1'', ''M1'')] (w5_run ops_lie))"
proof -
  have h1: "''R9'' \<notin> id_r ` set (risques W5_lie)"
    by code_simp
  have h2: "''R1'' \<in> id_r ` set (risques W5_lie)" "''M1'' \<in> id_mt ` set (mesures_traitement W5_lie)"
    by code_simp+
  have h3: "ids_distinct W5_lie" "link_inv W5_lie"
    by code_simp+
  have h4: "distinct (map id_r (risques (w5_run ops_lie)))" "link_inv (w5_run ops_lie)"
    by code_simp+
  note a = associate_mesure_to_risque_links [of "''R9''" W5_lie "''M1''"
        "[(''R1'', ''M1''), (''R1'', ''M1''), (''R2'', ''M1'')]" ops_lie]
  note b = associate_mesure_to_risque_links [of "''R1''" W5_lie "''M1''"
        "[(''R2'', ''M1''), (''R1'', ''M1'')]" ops_lie]
  have 1: "associate_mesure_to_risque W5_lie ''R9'' ''M1'' = (False, W5_lie)"
    using a h1 by blast
  have 2: "fst (associate_mesure_to_risque W5_lie ''R1'' ''M1'') = True"
    using b h2 by simp
  have 3: "link_inv (associate_all [(''R1'', ''M1''), (''R1'', ''M1''), (''R2'', ''M1'')] W5_lie)"
    using a h3 by blast
  have 4: "link_inv (associate_all [(''R2'', ''M1''), (''R1'', ''M1'')] (w5_run ops_lie))"
    using b h4 by blast
  show ?thesis
    using 1 2 3 4 h3 h4 by blast
qed

text \<open>
  C10, as stated, fails when two risks carry the same ID, which \<open>add_risque\<close> accepts:
  the invariant holds before the call, the call succeeds and updates the first risk
  only, and the second risk then has its ID in the measure's list without having the
  measure in its own.
\<close>

theorem associate_breaks_links_on_duplicate_id:
  "link_inv W5_doublon \<and>
   fst (associate_mesure_to_risque W5_doublon ''R1'' ''M1'') = True \<and>
   \<not> link_inv (snd (associate_mesure_to_risque W5_doublon ''R1'' ''M1''))"
  by code_simp

end
